theory Spec2Isabelle
  imports Main "HOL-Library.AList"
begin

section \<open>JavaScript values used by the application\<close>

text \<open>
  Strings are \<open>string\<close>; a value that may be \<open>null\<close> or \<open>undefined\<close> is a
  \<open>string option\<close>. JavaScript tests such values for truthiness: \<open>null\<close>,
  \<open>undefined\<close> and the empty string are falsy, every other string is truthy.
\<close>

definition truthy :: "string option \<Rightarrow> bool" where
  "truthy v = (case v of None \<Rightarrow> False | Some s \<Rightarrow> s \<noteq> [])"

text \<open>\<open>a || b\<close> on two strings.\<close>

definition or_else :: "string \<Rightarrow> string \<Rightarrow> string" where
  "or_else a b = (if a \<noteq> [] then a else b)"

text \<open>
  \<open>String.prototype.trim\<close> strips white space and line terminators from both ends.
  A \<open>char\<close> is a byte, so the white space modelled is the ASCII part of it: space,
  tab, line feed, vertical tab, form feed and carriage return.
\<close>

definition is_space :: "char \<Rightarrow> bool" where
  "is_space c = (c = CHR '' '' \<or> c = CHR 0x09 \<or> c = CHR 0x0A \<or> c = CHR 0x0B
                  \<or> c = CHR 0x0C \<or> c = CHR 0x0D)"

definition trim :: "string \<Rightarrow> string" where
  "trim s = rev (dropWhile is_space (rev (dropWhile is_space s)))"

definition startsWith :: "string \<Rightarrow> string \<Rightarrow> bool" where
  "startsWith s p = (take (length p) s = p)"

definition slice :: "string \<Rightarrow> nat \<Rightarrow> string" where
  "slice s n = drop n s"

text \<open>
  A string-keyed holder (\<open>sessionStorage\<close>, the cookies of a request) is an association
  list with at most one entry per key.
\<close>

type_synonym holder = "(string \<times> string) list"

definition getItem :: "holder \<Rightarrow> string \<Rightarrow> string option" where
  "getItem h k = map_of h k"

definition setItem :: "holder \<Rightarrow> string \<Rightarrow> string \<Rightarrow> holder" where
  "setItem h k v = AList.update k v h"

definition removeItem :: "holder \<Rightarrow> string \<Rightarrow> holder" where
  "removeItem h k = AList.delete k h"

text \<open>
  The claims of a decoded or verified JSON Web Token. A string claim that is missing is
  the empty string (the code reads every one of them through \<open>||\<close>, which treats the
  two alike); \<open>exp\<close> and \<open>nonce\<close> are \<open>None\<close> when missing.
\<close>

record claims =
  sub :: string
  email :: string
  name :: string
  preferred_username :: string
  exp :: "int option"
  nonce :: "string option"

record user =
  user_sub :: string
  user_email :: string
  user_name :: string

text \<open>
  The object literal \<open>{sub: p.sub || "", email: p.email || "", name: p.name ||
  p.preferred_username || ""}\<close> that every variant builds from a payload.
\<close>

definition user_of :: "claims \<Rightarrow> user" where
  "user_of p = \<lparr>user_sub = or_else (sub p) [], user_email = or_else (email p) [],
     user_name = or_else (or_else (name p) (preferred_username p)) []\<rparr>"


section \<open>The todo store and its HTTP routes\<close>

text \<open>
  The table \<open>todos(id serial primary key, text text not null, completed boolean not null
  default false, created_at timestamptz not null default now())\<close>. The store keeps its
  rows, the next value of the serial sequence and the statements it has executed, in
  order.
\<close>

record todo =
  todo_id :: nat
  todo_text :: string
  completed :: bool
  created_at :: nat

text \<open>The text of a todo as the data model wants it: not empty, and trimmed.\<close>

definition trimmed_nonempty :: "string \<Rightarrow> bool" where
  "trimmed_nonempty s = (s \<noteq> [] \<and> trim s = s)"

datatype query =
    Select
  | Insert string
  | Update "string option" "bool option" nat
  | Delete nat

record db =
  rows :: "todo list"
  next_id :: nat
  queries :: "query list"

text \<open>\<open>SELECT * FROM todos ORDER BY created_at DESC\<close>\<close>

definition db_select :: "db \<Rightarrow> todo list \<times> db" where
  "db_select d = (rev (sort_key created_at (rows d)), d\<lparr>queries := queries d @ [Select]\<rparr>)"

text \<open>\<open>INSERT INTO todos (text) VALUES ($1) RETURNING *\<close>, at time \<open>now\<close>\<close>

definition db_insert :: "nat \<Rightarrow> string \<Rightarrow> db \<Rightarrow> todo \<times> db" where
  "db_insert now t d =
     (let r = \<lparr>todo_id = next_id d, todo_text = t, completed = False, created_at = now\<rparr>
      in (r, d\<lparr>rows := rows d @ [r], next_id := Suc (next_id d),
                queries := queries d @ [Insert t]\<rparr>))"

text \<open>
  \<open>UPDATE todos SET ... WHERE id = $i RETURNING *\<close>, where the \<open>SET\<close> list holds
  \<open>text\<close> and \<open>completed\<close> when a value is given for them.
\<close>

definition set_fields :: "string option \<Rightarrow> bool option \<Rightarrow> todo \<Rightarrow> todo" where
  "set_fields t c r =
     (let r1 = (case t of None \<Rightarrow> r | Some v \<Rightarrow> r\<lparr>todo_text := v\<rparr>)
      in (case c of None \<Rightarrow> r1 | Some b \<Rightarrow> r1\<lparr>completed := b\<rparr>))"

definition db_update :: "string option \<Rightarrow> bool option \<Rightarrow> nat \<Rightarrow> db \<Rightarrow> todo list \<times> db" where
  "db_update t c i d =
     (let rs = map (\<lambda>r. if todo_id r = i then set_fields t c r else r) (rows d)
      in (filter (\<lambda>r. todo_id r = i) rs,
          d\<lparr>rows := rs, queries := queries d @ [Update t c i]\<rparr>))"

text \<open>\<open>DELETE FROM todos WHERE id = $1\<close>; the first component is \<open>rowCount\<close>.\<close>

definition db_delete :: "nat \<Rightarrow> db \<Rightarrow> nat \<times> db" where
  "db_delete i d =
     (length (filter (\<lambda>r. todo_id r = i) (rows d)),
      d\<lparr>rows := filter (\<lambda>r. todo_id r \<noteq> i) (rows d), queries := queries d @ [Delete i]\<rparr>)"

text \<open>
  A request to one of the four todo routes. The JSON body is read at the types of the
  HTTP interface: \<open>text\<close> is a string or missing, \<open>completed\<close> a boolean or missing,
  and the \<open>:id\<close> segment a number. Requests whose body is not JSON or whose fields have
  other types (they make the handler or the statement throw) are not modelled.
\<close>

datatype route =
    GetTodos
  | PostTodos "string option"
  | PatchTodo nat "string option" "bool option"
  | DeleteTodo nat

record request =
  route :: route
  authorization :: "string option"
  cookies :: holder

datatype body =
    ErrorBody string
  | TodoList "todo list"
  | TodoBody todo
  | OkBody

record response =
  status :: nat
  body :: body

text \<open>The four handlers; their text is the same in the three backends.\<close>

definition get_todos :: "db \<Rightarrow> response \<times> db" where
  "get_todos d = (case db_select d of (rs, d') \<Rightarrow> (\<lparr>status = 200, body = TodoList rs\<rparr>, d'))"

definition post_todos :: "nat \<Rightarrow> string option \<Rightarrow> db \<Rightarrow> response \<times> db" where
  "post_todos now t d =
     (case t of
        None \<Rightarrow> (\<lparr>status = 400, body = ErrorBody ''text is required''\<rparr>, d)
      | Some s \<Rightarrow>
          if trim s = [] then (\<lparr>status = 400, body = ErrorBody ''text is required''\<rparr>, d)
          else (case db_insert now (trim s) d of
                  (r, d') \<Rightarrow> (\<lparr>status = 201, body = TodoBody r\<rparr>, d')))"

definition patch_todo :: "nat \<Rightarrow> string option \<Rightarrow> bool option \<Rightarrow> db \<Rightarrow> response \<times> db" where
  "patch_todo i t c d =
     (if t = None \<and> c = None
      then (\<lparr>status = 400, body = ErrorBody ''nothing to update''\<rparr>, d)
      else (case db_update t c i d of
              (rs, d') \<Rightarrow>
                (case rs of
                   [] \<Rightarrow> (\<lparr>status = 404, body = ErrorBody ''not found''\<rparr>, d')
                 | r # _ \<Rightarrow> (\<lparr>status = 200, body = TodoBody r\<rparr>, d'))))"

definition delete_todo :: "nat \<Rightarrow> db \<Rightarrow> response \<times> db" where
  "delete_todo i d =
     (case db_delete i d of
        (n, d') \<Rightarrow>
          (if n = 0 then (\<lparr>status = 404, body = ErrorBody ''not found''\<rparr>, d')
           else (\<lparr>status = 200, body = OkBody\<rparr>, d')))"

definition handle :: "nat \<Rightarrow> route \<Rightarrow> db \<Rightarrow> response \<times> db" where
  "handle now r d =
     (case r of
        GetTodos \<Rightarrow> get_todos d
      | PostTodos t \<Rightarrow> post_todos now t d
      | PatchTodo i t c \<Rightarrow> patch_todo i t c d
      | DeleteTodo i \<Rightarrow> delete_todo i d)"

subsection \<open>The guards of the three backends\<close>

text \<open>
  \<open>jose.jwtVerify\<close> is a library function: it is a parameter, \<open>None\<close> when it throws
  (bad signature, wrong issuer, expired, not a token).

  Bearer backend, \<open>requireAuth\<close>: the header must start with \<open>Bearer\<close> and a space,
  and the rest must verify against the provider's keys.
\<close>

definition requireAuth_bearer :: "(string \<Rightarrow> claims option) \<Rightarrow> request \<Rightarrow> response + user" where
  "requireAuth_bearer jwtVerify rq =
     (case authorization rq of
        None \<Rightarrow> Inl \<lparr>status = 401, body = ErrorBody ''unauthorized''\<rparr>
      | Some authHeader \<Rightarrow>
          if \<not> startsWith authHeader ''Bearer ''
          then Inl \<lparr>status = 401, body = ErrorBody ''unauthorized''\<rparr>
          else (case jwtVerify (slice authHeader 7) of
                  Some payload \<Rightarrow>
                    Inr \<lparr>user_sub = sub payload, user_email = or_else (email payload) [],
                         user_name = or_else (or_else (name payload) (preferred_username payload)) []\<rparr>
                | None \<Rightarrow> Inl \<lparr>status = 401, body = ErrorBody ''invalid_token''\<rparr>))"

text \<open>
  Session backend, \<open>getSession\<close> and \<open>requireAuth\<close>: the \<open>session\<close> cookie must be
  there, non-empty, and verify against the session key.
\<close>

definition getSession :: "(string \<Rightarrow> claims option) \<Rightarrow> holder \<Rightarrow> user option" where
  "getSession jwtVerify cs =
     (case getItem cs ''session'' of
        None \<Rightarrow> None
      | Some token \<Rightarrow>
          if token = [] then None
          else (case jwtVerify token of
                  Some payload \<Rightarrow>
                    Some \<lparr>user_sub = sub payload, user_email = email payload,
                          user_name = name payload\<rparr>
                | None \<Rightarrow> None))"

definition requireAuth_session :: "(string \<Rightarrow> claims option) \<Rightarrow> request \<Rightarrow> response + user" where
  "requireAuth_session jwtVerify rq =
     (case getSession jwtVerify (cookies rq) of
        None \<Rightarrow> Inl \<lparr>status = 401, body = ErrorBody ''unauthorized''\<rparr>
      | Some u \<Rightarrow> Inr u)"

text \<open>
  The three backends: the first one written has no guard on its routes, the second
  verifies a bearer token, the third a session cookie.
\<close>

datatype variant = Unguarded | Bearer | Session

definition app :: "variant \<Rightarrow> (string \<Rightarrow> claims option) \<Rightarrow> nat \<Rightarrow> request \<Rightarrow> db \<Rightarrow> response \<times> db" where
  "app v jwtVerify now rq d =
     (case v of
        Unguarded \<Rightarrow> handle now (route rq) d
      | Bearer \<Rightarrow>
          (case requireAuth_bearer jwtVerify rq of
             Inl resp \<Rightarrow> (resp, d)
           | Inr u \<Rightarrow> handle now (route rq) d)
      | Session \<Rightarrow>
          (case requireAuth_session jwtVerify rq of
             Inl resp \<Rightarrow> (resp, d)
           | Inr u \<Rightarrow> handle now (route rq) d))"

text \<open>A request carries a valid credential for a guarded backend.\<close>

definition has_bearer_header :: "request \<Rightarrow> bool" where
  "has_bearer_header rq =
     (case authorization rq of None \<Rightarrow> False | Some h \<Rightarrow> startsWith h ''Bearer '')"

definition valid_credential :: "variant \<Rightarrow> (string \<Rightarrow> claims option) \<Rightarrow> request \<Rightarrow> bool" where
  "valid_credential v jwtVerify rq =
     (case v of
        Unguarded \<Rightarrow> False
      | Bearer \<Rightarrow>
          (case authorization rq of
             None \<Rightarrow> False
           | Some h \<Rightarrow> startsWith h ''Bearer '' \<and> jwtVerify (slice h 7) \<noteq> None)
      | Session \<Rightarrow>
          (case getItem (cookies rq) ''session'' of
             None \<Rightarrow> False
           | Some t \<Rightarrow> t \<noteq> [] \<and> jwtVerify t \<noteq> None))"


section \<open>The provider, as both clients see it\<close>

text \<open>
  The discovery document, the form of a token request (\<open>URLSearchParams\<close>, in the
  order the code lists the fields) and the token endpoint's answer. \<open>ok\<close> is
  \<open>Response.ok\<close>: the status is 2xx.
\<close>

record oidc_config =
  authorization_endpoint :: string
  token_endpoint :: string
  end_session_endpoint :: string
  jwks_uri :: string

type_synonym form = "(string \<times> string) list"

record token_reply =
  ok :: bool
  access_token :: string
  refresh_token :: "string option"
  id_token :: string

text \<open>Every network request a client makes is logged, in order.\<close>

datatype net_request =
    Discovery string
  | TokenPost string form
  | JwksGet string

text \<open>
  A \<open>fetch\<close> that rejects (the network fails, or the answer is not JSON where
  \<open>json()\<close> is called on it) rejects the promise of the function that awaits it.
\<close>

datatype exn = NetworkError

text \<open>
  The world outside the code: what the provider answers (given the requests made so far
  and the request), and the platform's and the JOSE library's functions. \<open>None\<close> is a
  rejected \<open>fetch\<close> or a thrown exception.
  \<^item> \<open>atob_json seg\<close> is \<open>JSON.parse(atob(seg))\<close>, \<open>None\<close> too when the parsed
    value is \<open>null\<close> (reading a property of it throws);
  \<^item> \<open>sha256\<close> and \<open>btoa\<close> are the platform's digest and base64 encoder;
  \<^item> \<open>verify_id_token keys token\<close> is \<open>jose.jwtVerify\<close> with the provider's keys,
    issuer and audience; \<open>verify_session\<close> is \<open>jose.jwtVerify\<close> with the session
    key; \<open>sign_session\<close> is \<open>jose.SignJWT\<close> with the session key, issued at the
    given time for 30 days.
\<close>

record world =
  fetch_config :: "net_request list \<Rightarrow> string \<Rightarrow> oidc_config option"
  fetch_token :: "net_request list \<Rightarrow> string \<Rightarrow> form \<Rightarrow> token_reply option"
  fetch_jwks :: "net_request list \<Rightarrow> string \<Rightarrow> string option"
  atob_json :: "string \<Rightarrow> claims option"
  sha256 :: "string \<Rightarrow> string"
  btoa :: "string \<Rightarrow> string"
  verify_id_token :: "string \<Rightarrow> string \<Rightarrow> claims option"
  verify_session :: "string \<Rightarrow> claims option"
  sign_session :: "user \<Rightarrow> nat \<Rightarrow> string"
  origin :: string

fun token_posts :: "net_request list \<Rightarrow> (string \<times> form) list" where
  "token_posts [] = []"
| "token_posts (TokenPost u f # rs) = (u, f) # token_posts rs"
| "token_posts (_ # rs) = token_posts rs"


section \<open>The browser's authentication module (bearer variant)\<close>

definition OIDC_ISSUER :: string where
  "OIDC_ISSUER = ''https://auth.snir.sh/application/o/todo-app/''"

definition CLIENT_ID :: string where
  "CLIENT_ID = ''5QFMboN9PXKIrx5X4In59wXZlv0DpUAreYes1fql''"

definition REDIRECT_URI :: "world \<Rightarrow> string" where
  "REDIRECT_URI w = origin w @ ''/callback''"

definition SCOPES :: string where
  "SCOPES = ''openid email profile''"

text \<open>
  The module's variables (\<open>_accessToken\<close>, \<open>_refreshToken\<close>, \<open>_user\<close>,
  \<open>_config\<close>), the tab's \<open>sessionStorage\<close>, the path and query of the page's URL,
  the URL the page was last sent to, and the log of the requests made.
\<close>

record browser =
  accessToken :: "string option"
  refreshToken :: "string option"
  current_user :: "user option"
  config :: "oidc_config option"
  sessionStorage :: holder
  pathname :: string
  search :: form
  href :: "(string \<times> form) option"
  requests :: "net_request list"

text \<open>
  Loading the module: the two tokens are read from \<open>sessionStorage\<close>, no user is
  decoded and no discovery document is cached.
\<close>

definition load_module :: "holder \<Rightarrow> string \<Rightarrow> form \<Rightarrow> net_request list \<Rightarrow> browser" where
  "load_module st path q lg =
     \<lparr>accessToken = getItem st ''access_token'', refreshToken = getItem st ''refresh_token'',
      current_user = None, config = None, sessionStorage = st, pathname = path, search = q,
      href = None, requests = lg\<rparr>"

subsection \<open>PKCE helpers\<close>

text \<open>
  \<open>base64url\<close>: the base64 text with \<open>+\<close> and \<open>/\<close> replaced and the trailing
  \<open>=\<close> signs removed. \<open>randomString\<close> draws from \<open>crypto.getRandomValues\<close>: the
  strings it returns are arguments of \<open>login\<close> and \<open>logout\<close>.
\<close>

definition base64url :: "world \<Rightarrow> string \<Rightarrow> string" where
  "base64url w buffer =
     rev (dropWhile (\<lambda>c. c = CHR ''='')
       (rev (map (\<lambda>c. if c = CHR ''+'' then CHR ''-'' else if c = CHR ''/'' then CHR ''_'' else c)
          (btoa w buffer))))"

definition createPKCE :: "world \<Rightarrow> string \<Rightarrow> string \<times> string" where
  "createPKCE w verifier = (verifier, base64url w (sha256 w verifier))"

subsection \<open>Discovery, cached\<close>

definition getOIDCConfig :: "world \<Rightarrow> browser \<Rightarrow> (exn + oidc_config) \<times> browser" where
  "getOIDCConfig w s =
     (case config s of
        Some c \<Rightarrow> (Inr c, s)
      | None \<Rightarrow>
          (let url = OIDC_ISSUER @ ''.well-known/openid-configuration'';
               s1 = s\<lparr>requests := requests s @ [Discovery url]\<rparr>
           in (case fetch_config w (requests s) url of
                 None \<Rightarrow> (Inl NetworkError, s1)
               | Some c \<Rightarrow> (Inr c, s1\<lparr>config := Some c\<rparr>))))"

subsection \<open>Token storage\<close>

text \<open>\<open>token.split(".")\<close>\<close>

fun split_on :: "char \<Rightarrow> string \<Rightarrow> string list" where
  "split_on c [] = [[]]"
| "split_on c (x # xs) =
     (if x = c then [] # split_on c xs
      else (case split_on c xs of y # ys \<Rightarrow> (x # y) # ys | [] \<Rightarrow> [[x]]))"

text \<open>
  \<open>JSON.parse(atob(token.split(".")[1]))\<close>. With no second segment the argument is
  \<open>undefined\<close>, which \<open>atob\<close> rejects.
\<close>

definition decodePayload :: "world \<Rightarrow> string \<Rightarrow> claims option" where
  "decodePayload w token =
     (case split_on CHR ''.'' token of
        _ # seg # _ \<Rightarrow> atob_json w seg
      | _ \<Rightarrow> None)"

definition storeTokens :: "world \<Rightarrow> string \<Rightarrow> string option \<Rightarrow> browser \<Rightarrow> browser" where
  "storeTokens w access refresh s =
     (let s1 = s\<lparr>accessToken := Some access,
                  sessionStorage := setItem (sessionStorage s) ''access_token'' access\<rparr>;
          s2 = (case refresh of
                  None \<Rightarrow> s1
                | Some r \<Rightarrow>
                    if r = [] then s1
                    else s1\<lparr>refreshToken := Some r,
                            sessionStorage := setItem (sessionStorage s1) ''refresh_token'' r\<rparr>)
      in (case decodePayload w access of
            Some payload \<Rightarrow> s2\<lparr>current_user := Some (user_of payload)\<rparr>
          | None \<Rightarrow> s2\<lparr>current_user := None\<rparr>))"

definition clearTokens :: "browser \<Rightarrow> browser" where
  "clearTokens s =
     s\<lparr>accessToken := None, refreshToken := None, current_user := None,
       sessionStorage := removeItem (removeItem (sessionStorage s) ''access_token'') ''refresh_token''\<rparr>"

subsection \<open>Expiry\<close>

text \<open>
  \<open>payload.exp * 1000 < Date.now() + 60_000\<close>, \<open>true\<close> when decoding throws. A
  payload with no numeric \<open>exp\<close> makes the product \<open>NaN\<close> and the comparison false.
  \<open>now\<close> is \<open>Date.now()\<close>, in milliseconds.
\<close>

definition isTokenExpired :: "world \<Rightarrow> int \<Rightarrow> string \<Rightarrow> bool" where
  "isTokenExpired w now token =
     (case decodePayload w token of
        None \<Rightarrow> True
      | Some payload \<Rightarrow>
          (case exp payload of
             None \<Rightarrow> False
           | Some e \<Rightarrow> e * 1000 < now + 60000))"

subsection \<open>Public interface\<close>

text \<open>
  Where a definition below reads a value with \<open>the\<close>, the test before it has found
  that value truthy, as JavaScript's short-circuit evaluation does.

  The query of the authorization URL that \<open>login\<close> and \<open>logout\<close> build.
\<close>

definition authorize_query :: "world \<Rightarrow> string \<Rightarrow> string \<Rightarrow> form" where
  "authorize_query w state challenge =
     [(''client_id'', CLIENT_ID), (''redirect_uri'', REDIRECT_URI w),
      (''response_type'', ''code''), (''scope'', SCOPES), (''state'', state),
      (''code_challenge'', challenge), (''code_challenge_method'', ''S256'')]"

text \<open>
  \<open>login\<close>; \<open>verifier\<close> is the value of \<open>randomString(64)\<close> and \<open>state\<close> that of
  \<open>randomString(32)\<close>.
\<close>

definition login :: "world \<Rightarrow> string \<Rightarrow> string \<Rightarrow> browser \<Rightarrow> (exn + unit) \<times> browser" where
  "login w verifier state s =
     (case getOIDCConfig w s of
        (Inl e, s1) \<Rightarrow> (Inl e, s1)
      | (Inr cfg, s1) \<Rightarrow>
          (case createPKCE w verifier of
             (v, challenge) \<Rightarrow>
               (Inr (),
                s1\<lparr>sessionStorage :=
                      setItem (setItem (sessionStorage s1) ''pkce_verifier'' v) ''auth_state'' state,
                    href := Some (authorization_endpoint cfg, authorize_query w state challenge)\<rparr>)))"

text \<open>
  \<open>handleCallback\<close>: the parameters are read from the query of the page's URL.
\<close>

definition handleCallback :: "world \<Rightarrow> browser \<Rightarrow> (exn + bool) \<times> browser" where
  "handleCallback w s =
     (let code = map_of (search s) ''code'';
          state = map_of (search s) ''state'';
          error = map_of (search s) ''error''
      in if truthy error then (Inr False, s)
         else if \<not> truthy code then (Inr False, s)
         else
           (let storedState = getItem (sessionStorage s) ''auth_state''
            in if state \<noteq> storedState then (Inr False, s)
               else
                 (let verifier = getItem (sessionStorage s) ''pkce_verifier''
                  in if \<not> truthy verifier then (Inr False, s)
                     else
                       (case getOIDCConfig w s of
                          (Inl e, s1) \<Rightarrow> (Inl e, s1)
                        | (Inr cfg, s1) \<Rightarrow>
                            (let fm = [(''grant_type'', ''authorization_code''),
                                       (''code'', the code),
                                       (''redirect_uri'', REDIRECT_URI w),
                                       (''client_id'', CLIENT_ID),
                                       (''code_verifier'', the verifier)];
                                 s2 = s1\<lparr>requests := requests s1 @ [TokenPost (token_endpoint cfg) fm]\<rparr>
                             in (case fetch_token w (requests s1) (token_endpoint cfg) fm of
                                   None \<Rightarrow> (Inl NetworkError, s2)
                                 | Some res \<Rightarrow>
                                     if \<not> ok res then (Inr False, s2)
                                     else
                                       (let s3 = storeTokens w (access_token res) (refresh_token res) s2;
                                            s4 = s3\<lparr>sessionStorage :=
                                                      removeItem (removeItem (sessionStorage s3) ''pkce_verifier'')
                                                        ''auth_state''\<rparr>
                                        in (Inr True, s4\<lparr>pathname := ''/'', search := []\<rparr>))))))))"

definition refreshAccessToken :: "world \<Rightarrow> browser \<Rightarrow> (exn + bool) \<times> browser" where
  "refreshAccessToken w s =
     (if \<not> truthy (refreshToken s) then (Inr False, s)
      else
        (case getOIDCConfig w s of
           (Inl e, s1) \<Rightarrow> (Inl e, s1)
         | (Inr cfg, s1) \<Rightarrow>
             (let fm = [(''grant_type'', ''refresh_token''),
                        (''refresh_token'', the (refreshToken s1)),
                        (''client_id'', CLIENT_ID)];
                  s2 = s1\<lparr>requests := requests s1 @ [TokenPost (token_endpoint cfg) fm]\<rparr>
              in (case fetch_token w (requests s1) (token_endpoint cfg) fm of
                    None \<Rightarrow> (Inl NetworkError, s2)
                  | Some res \<Rightarrow>
                      if \<not> ok res then (Inr False, clearTokens s2)
                      else (Inr True, storeTokens w (access_token res) (refresh_token res) s2)))))"

definition getAccessToken :: "world \<Rightarrow> int \<Rightarrow> browser \<Rightarrow> (exn + string option) \<times> browser" where
  "getAccessToken w now s =
     (if truthy (accessToken s) \<and> \<not> isTokenExpired w now (the (accessToken s))
      then (Inr (accessToken s), s)
      else if truthy (refreshToken s)
      then (case refreshAccessToken w s of
              (Inl e, s1) \<Rightarrow> (Inl e, s1)
            | (Inr success, s1) \<Rightarrow> if success then (Inr (accessToken s1), s1) else (Inr None, s1))
      else (Inr None, s))"

definition getUser :: "world \<Rightarrow> int \<Rightarrow> browser \<Rightarrow> user option" where
  "getUser w now s =
     (if \<not> truthy (accessToken s) then None
      else if isTokenExpired w now (the (accessToken s)) \<and> \<not> truthy (refreshToken s) then None
      else current_user s)"

definition isAuthenticated :: "world \<Rightarrow> int \<Rightarrow> browser \<Rightarrow> bool" where
  "isAuthenticated w now s =
     (truthy (accessToken s)
      \<and> (\<not> isTokenExpired w now (the (accessToken s)) \<or> truthy (refreshToken s)))"

definition logout :: "world \<Rightarrow> string \<Rightarrow> string \<Rightarrow> browser \<Rightarrow> (exn + unit) \<times> browser" where
  "logout w verifier state s =
     (case getOIDCConfig w (clearTokens s) of
        (Inl e, s1) \<Rightarrow> (Inl e, s1)
      | (Inr cfg, s1) \<Rightarrow>
          (case createPKCE w verifier of
             (v, challenge) \<Rightarrow>
               (Inr (),
                s1\<lparr>sessionStorage :=
                      setItem (setItem (sessionStorage s1) ''pkce_verifier'' v) ''auth_state'' state,
                    href := Some (authorization_endpoint cfg,
                                  authorize_query w state challenge @ [(''prompt'', ''login'')])\<rparr>)))"

definition initAuth :: "world \<Rightarrow> int \<Rightarrow> browser \<Rightarrow> (exn + bool) \<times> browser" where
  "initAuth w now s =
     (if pathname s = ''/callback'' then handleCallback w s
      else if truthy (accessToken s)
      then (if \<not> isTokenExpired w now (the (accessToken s))
            then (Inr True, storeTokens w (the (accessToken s))
                              (if truthy (refreshToken s) then refreshToken s else None) s)
            else if truthy (refreshToken s) then refreshAccessToken w s
            else (Inr False, s))
      else (Inr False, s))"


section \<open>The session backend's authentication routes\<close>

text \<open>The process environment the backend is configured from.\<close>

record settings =
  env_OIDC_ISSUER :: string
  env_CLIENT_ID :: string
  env_CLIENT_SECRET :: string
  env_REDIRECT_URI :: string
  env_APP_URL :: string

text \<open>
  The backend's two caches (\<open>oidcConfig\<close>, \<open>jwks\<close>) and the log of the requests
  it has made to the provider.
\<close>

record server =
  oidcConfig :: "oidc_config option"
  jwks :: "string option"
  outgoing :: "net_request list"

text \<open>
  A request to an authentication route (its query parameters and cookies) and the
  answer: status, content and the cookies set or deleted, in order. Only the
  \<open>maxAge\<close> of a cookie's options is kept; all are \<open>httpOnly\<close>, \<open>secure\<close>,
  \<open>SameSite=Lax\<close> with path \<open>/\<close>.
\<close>

record auth_request =
  query :: form
  jar :: holder

datatype content =
    Redirect string form
  | Text string
  | Json_error string
  | Json_user user

datatype cookie_op =
    SetCookie string string nat
  | DeleteCookie string

record auth_response =
  status_code :: nat
  content :: content
  set_cookies :: "cookie_op list"

definition getOIDCConfig_server :: "world \<Rightarrow> settings \<Rightarrow> server \<Rightarrow> (exn + oidc_config) \<times> server" where
  "getOIDCConfig_server w cfg s =
     (case oidcConfig s of
        Some c \<Rightarrow> (Inr c, s)
      | None \<Rightarrow>
          (let url = env_OIDC_ISSUER cfg @ ''.well-known/openid-configuration'';
               s1 = s\<lparr>outgoing := outgoing s @ [Discovery url]\<rparr>
           in (case fetch_config w (outgoing s) url of
                 None \<Rightarrow> (Inl NetworkError, s1)
               | Some c \<Rightarrow> (Inr c, s1\<lparr>oidcConfig := Some c\<rparr>))))"

definition getJWKS :: "world \<Rightarrow> settings \<Rightarrow> server \<Rightarrow> (exn + string) \<times> server" where
  "getJWKS w cfg s =
     (case jwks s of
        Some ks \<Rightarrow> (Inr ks, s)
      | None \<Rightarrow>
          (case getOIDCConfig_server w cfg s of
             (Inl e, s1) \<Rightarrow> (Inl e, s1)
           | (Inr c, s1) \<Rightarrow>
               (let s2 = s1\<lparr>outgoing := outgoing s1 @ [JwksGet (jwks_uri c)]\<rparr>
                in (case fetch_jwks w (outgoing s1) (jwks_uri c) of
                      None \<Rightarrow> (Inl NetworkError, s2)
                    | Some ks \<Rightarrow> (Inr ks, s2\<lparr>jwks := Some ks\<rparr>)))))"

text \<open>\<open>GET /api/auth/me\<close>\<close>

definition auth_me :: "world \<Rightarrow> auth_request \<Rightarrow> auth_response" where
  "auth_me w rq =
     (case getSession (verify_session w) (jar rq) of
        None \<Rightarrow> \<lparr>status_code = 401, content = Json_error ''unauthorized'', set_cookies = []\<rparr>
      | Some u \<Rightarrow> \<lparr>status_code = 200, content = Json_user u, set_cookies = []\<rparr>)"

text \<open>
  \<open>GET /api/auth/login\<close>; \<open>state\<close> and \<open>nonce_value\<close> are the two values of
  \<open>crypto.randomUUID()\<close>.
\<close>

definition auth_login ::
  "world \<Rightarrow> settings \<Rightarrow> string \<Rightarrow> string \<Rightarrow> server \<Rightarrow> (exn + auth_response) \<times> server" where
  "auth_login w cfg state nonce_value s =
     (case getOIDCConfig_server w cfg s of
        (Inl e, s1) \<Rightarrow> (Inl e, s1)
      | (Inr c, s1) \<Rightarrow>
          (Inr \<lparr>status_code = 302,
                content = Redirect (authorization_endpoint c)
                  [(''client_id'', env_CLIENT_ID cfg), (''redirect_uri'', env_REDIRECT_URI cfg),
                   (''response_type'', ''code''), (''scope'', ''openid email profile''),
                   (''state'', state), (''nonce'', nonce_value)],
                set_cookies = [SetCookie ''auth_state'' state 300, SetCookie ''auth_nonce'' nonce_value 300]\<rparr>,
           s1))"

text \<open>
  \<open>GET /api/auth/callback\<close>. \<open>code!\<close> is only a type assertion: a missing code is
  sent as the text \<open>undefined\<close>. \<open>now\<close> is the time the session token is issued at.
\<close>

definition auth_callback ::
  "world \<Rightarrow> settings \<Rightarrow> nat \<Rightarrow> auth_request \<Rightarrow> server \<Rightarrow> (exn + auth_response) \<times> server" where
  "auth_callback w cfg now rq s =
     (let code = map_of (query rq) ''code'';
          state = map_of (query rq) ''state'';
          error = map_of (query rq) ''error''
      in if truthy error
         then (Inr \<lparr>status_code = 302, content = Redirect (env_APP_URL cfg @ ''?error='' @ the error) [],
                    set_cookies = []\<rparr>, s)
         else
           (let storedState = getItem (jar rq) ''auth_state'';
                storedNonce = getItem (jar rq) ''auth_nonce''
            in if \<not> truthy state
               then (Inr \<lparr>status_code = 400, content = Text ''Invalid state parameter'', set_cookies = []\<rparr>, s)
               else if state \<noteq> storedState
               then (Inr \<lparr>status_code = 400, content = Text ''Invalid state parameter'', set_cookies = []\<rparr>, s)
               else
                 (case getOIDCConfig_server w cfg s of
                    (Inl e, s1) \<Rightarrow> (Inl e, s1)
                  | (Inr c, s1) \<Rightarrow>
                      (let fm = [(''grant_type'', ''authorization_code''),
                                 (''code'', (case code of None \<Rightarrow> ''undefined'' | Some x \<Rightarrow> x)),
                                 (''redirect_uri'', env_REDIRECT_URI cfg),
                                 (''client_id'', env_CLIENT_ID cfg),
                                 (''client_secret'', env_CLIENT_SECRET cfg)];
                           s2 = s1\<lparr>outgoing := outgoing s1 @ [TokenPost (token_endpoint c) fm]\<rparr>
                       in (case fetch_token w (outgoing s1) (token_endpoint c) fm of
                             None \<Rightarrow> (Inl NetworkError, s2)
                           | Some tokenRes \<Rightarrow>
                               if \<not> ok tokenRes
                               then (Inr \<lparr>status_code = 500, content = Text ''Token exchange failed'',
                                          set_cookies = []\<rparr>, s2)
                               else
                                 (case getJWKS w cfg s2 of
                                    (Inl e, s3) \<Rightarrow> (Inl e, s3)
                                  | (Inr ks, s3) \<Rightarrow>
                                      (case verify_id_token w ks (id_token tokenRes) of
                                         None \<Rightarrow>
                                           (Inr \<lparr>status_code = 400, content = Text ''ID token verification failed'',
                                                 set_cookies = []\<rparr>, s3)
                                       | Some idToken \<Rightarrow>
                                           if truthy storedNonce \<and> nonce idToken \<noteq> storedNonce
                                           then (Inr \<lparr>status_code = 400, content = Text ''Invalid nonce'',
                                                      set_cookies = []\<rparr>, s3)
                                           else
                                             (let session = sign_session w (user_of idToken) now
                                              in (Inr \<lparr>status_code = 302,
                                                       content = Redirect (env_APP_URL cfg) [],
                                                       set_cookies =
                                                         [SetCookie ''session'' session (30 * 24 * 60 * 60),
                                                          DeleteCookie ''auth_state'',
                                                          DeleteCookie ''auth_nonce'']\<rparr>, s3)))))))))"

text \<open>\<open>GET /api/auth/logout\<close>\<close>

definition auth_logout :: "world \<Rightarrow> settings \<Rightarrow> server \<Rightarrow> (exn + auth_response) \<times> server" where
  "auth_logout w cfg s =
     (case getOIDCConfig_server w cfg s of
        (Inl e, s1) \<Rightarrow> (Inl e, s1)
      | (Inr c, s1) \<Rightarrow>
          (Inr \<lparr>status_code = 302,
                content = Redirect (end_session_endpoint c)
                  [(''post_logout_redirect_uri'', env_APP_URL cfg)],
                set_cookies = [DeleteCookie ''session'']\<rparr>, s1))"

text \<open>
  What a user agent does with the cookie operations of an answer: it stores or drops
  each cookie in turn.
\<close>

fun apply_cookies :: "cookie_op list \<Rightarrow> holder \<Rightarrow> holder" where
  "apply_cookies [] h = h"
| "apply_cookies (SetCookie k v _ # ops) h = apply_cookies ops (setItem h k v)"
| "apply_cookies (DeleteCookie k # ops) h = apply_cookies ops (removeItem h k)"


section \<open>Concrete inputs\<close>

text \<open>
  A provider that answers every request, and the tokens it hands out. The payload
  segment \<open>old\<close> decodes to claims expiring at second 1000, \<open>soon\<close> to claims
  expiring at second 5030, \<open>fresh\<close> to claims expiring at second 9000; no other
  segment decodes. The ID token \<open>id\<close> verifies, with the nonce \<open>nonce-A\<close>.
\<close>

definition demo_config :: oidc_config where
  "demo_config =
     \<lparr>authorization_endpoint = ''https://idp/authorize'', token_endpoint = ''https://idp/token'',
      end_session_endpoint = ''https://idp/logout'', jwks_uri = ''https://idp/jwks''\<rparr>"

definition alice :: "int option \<Rightarrow> string option \<Rightarrow> claims" where
  "alice e n =
     \<lparr>sub = ''alice'', email = ''alice@example.org'', name = ''Alice'', preferred_username = [],
      exp = e, nonce = n\<rparr>"

definition demo_atob_json :: "string \<Rightarrow> claims option" where
  "demo_atob_json seg =
     (if seg = ''old'' then Some (alice (Some 1000) None)
      else if seg = ''soon'' then Some (alice (Some 5030) None)
      else if seg = ''fresh'' then Some (alice (Some 9000) None)
      else None)"

definition demo_reply :: token_reply where
  "demo_reply =
     \<lparr>ok = True, access_token = ''h.fresh.s'', refresh_token = Some ''refresh-2'', id_token = ''id''\<rparr>"

definition demo_world :: world where
  "demo_world =
     \<lparr>fetch_config = (\<lambda>lg url. Some demo_config),
      fetch_token = (\<lambda>lg url fm. Some demo_reply),
      fetch_jwks = (\<lambda>lg url. Some ''keys''),
      atob_json = demo_atob_json,
      sha256 = (\<lambda>plain. plain),
      btoa = (\<lambda>bytes. bytes),
      verify_id_token = (\<lambda>ks t. if t = ''id'' then Some (alice (Some 9000) (Some ''nonce-A'')) else None),
      verify_session = (\<lambda>t. if t = ''signed-session'' then Some (alice (Some 9000) None) else None),
      sign_session = (\<lambda>u t. ''signed-session''),
      origin = ''https://todo.snir.sh''\<rparr>"

text \<open>The same provider, refusing every token request with a non-2xx status.\<close>

definition refusing_world :: world where
  "refusing_world = demo_world\<lparr>fetch_token := (\<lambda>lg url fm. Some (demo_reply\<lparr>ok := False\<rparr>))\<rparr>"

text \<open>The same provider, answering a refresh with a token that has already expired.\<close>

definition stale_world :: world where
  "stale_world =
     demo_world\<lparr>fetch_token := (\<lambda>lg url fm. Some (demo_reply\<lparr>access_token := ''h.old.s''\<rparr>))\<rparr>"

definition demo_settings :: settings where
  "demo_settings =
     \<lparr>env_OIDC_ISSUER = ''https://idp/'', env_CLIENT_ID = ''todo'', env_CLIENT_SECRET = ''s3cret'',
      env_REDIRECT_URI = ''https://todo.snir.sh/api/auth/callback'',
      env_APP_URL = ''https://todo.snir.sh''\<rparr>"

text \<open>A freshly loaded page with empty storage, and a backend that has fetched nothing.\<close>

definition fresh_page :: browser where
  "fresh_page = load_module [] ''/'' [] []"

definition fresh_server :: server where
  "fresh_server = \<lparr>oidcConfig = None, jwks = None, outgoing = []\<rparr>"

text \<open>
  The page a login with verifier \<open>verifier-1\<close> and state \<open>state-1\<close> leaves behind,
  reloaded at the callback URL with the given query.
\<close>

definition callback_page :: "form \<Rightarrow> browser" where
  "callback_page q =
     load_module (sessionStorage (snd (login demo_world ''verifier-1'' ''state-1'' fresh_page)))
       ''/callback'' q []"

text \<open>
  A page holding the access token \<open>h.old.s\<close> (expired at second 1000), its decoded
  user and the refresh token \<open>refresh-1\<close>.
\<close>

definition expired_page :: browser where
  "expired_page = storeTokens demo_world ''h.old.s'' (Some ''refresh-1'') fresh_page"

text \<open>
  A page holding the access token \<open>h.soon.s\<close> (expiring at second 5030), its decoded
  user and the refresh token \<open>refresh-1\<close>.
\<close>

definition soon_page :: browser where
  "soon_page = storeTokens demo_world ''h.soon.s'' (Some ''refresh-1'') fresh_page"

text \<open>
  The cookies a user agent holds after \<open>GET /api/auth/login\<close> issued the given state
  and nonce, and the callback request it then sends with the \<open>state\<close> parameter
  \<open>st\<close>, after a login that issued \<open>state-1\<close> and the nonce \<open>nc\<close>.
\<close>

definition login_jar :: "string \<Rightarrow> string \<Rightarrow> holder" where
  "login_jar st nc =
     (case fst (auth_login demo_world demo_settings st nc fresh_server) of
        Inl e \<Rightarrow> []
      | Inr resp \<Rightarrow> apply_cookies (set_cookies resp) [])"

definition callback_request :: "string \<Rightarrow> string \<Rightarrow> auth_request" where
  "callback_request st nc = \<lparr>query = [(''code'', ''c1''), (''state'', st)], jar = login_jar ''state-1'' nc\<rparr>"

text \<open>
  The same provider seen through a decoder that also knows the payload segment
  \<open>noexp\<close>, with no \<open>exp\<close> claim, and \<open>edge\<close>, which expires at second 5060;
  and a page that holds the given access token and no refresh token.
\<close>

definition edge_atob_json :: "string \<Rightarrow> claims option" where
  "edge_atob_json seg =
     (if seg = ''noexp'' then Some (alice None None)
      else if seg = ''edge'' then Some (alice (Some 5060) None)
      else demo_atob_json seg)"

definition edge_world :: world where
  "edge_world = demo_world\<lparr>atob_json := edge_atob_json\<rparr>"

definition token_page :: "string \<Rightarrow> browser" where
  "token_page t = storeTokens edge_world t None fresh_page"

text \<open>
  The callback request of a login that issued \<open>state-1\<close> and the nonce
  \<open>nonce-B\<close>, sent without the \<open>auth_nonce\<close> cookie, and sent with an empty one.
\<close>

definition bare_request :: auth_request where
  "bare_request = \<lparr>query = [(''code'', ''c1''), (''state'', ''state-1'')],
                    jar = removeItem (login_jar ''state-1'' ''nonce-B'') ''auth_nonce''\<rparr>"

definition blank_request :: auth_request where
  "blank_request = \<lparr>query = [(''code'', ''c1''), (''state'', ''state-1'')],
                     jar = setItem (login_jar ''state-1'' ''nonce-B'') ''auth_nonce'' []\<rparr>"

text \<open>A store with one todo, and token verifiers that accept nothing and everything.\<close>

definition one_todo :: db where
  "one_todo =
     \<lparr>rows = [\<lparr>todo_id = 1, todo_text = ''Buy milk'', completed = False, created_at = 5\<rparr>],
      next_id = 2, queries = []\<rparr>"

definition reject_all :: "string \<Rightarrow> claims option" where
  "reject_all t = None"

definition accept_all :: "string \<Rightarrow> claims option" where
  "accept_all t = Some (alice (Some 9000) None)"


section \<open>Auxiliary facts\<close>

lemma getItem_setItem: "getItem (setItem h k v) k' = (if k' = k then Some v else getItem h k')"
  by (simp add: getItem_def setItem_def update_conv')

lemma getItem_removeItem: "getItem (removeItem h k) k' = (if k' = k then None else getItem h k')"
  by (simp add: getItem_def removeItem_def delete_conv')

lemma token_posts_append: "token_posts (xs @ ys) = token_posts xs @ token_posts ys"
  by (induction xs rule: token_posts.induct) simp_all

lemma getOIDCConfig_token_posts:
  "getOIDCConfig w s = (r, s') \<Longrightarrow> token_posts (requests s') = token_posts (requests s)"
  by (auto simp: getOIDCConfig_def Let_def token_posts_append split: option.splits)

lemma getOIDCConfig_keeps:
  "getOIDCConfig w s = (r, s') \<Longrightarrow>
     accessToken s' = accessToken s \<and> refreshToken s' = refreshToken s
     \<and> current_user s' = current_user s \<and> sessionStorage s' = sessionStorage s
     \<and> search s' = search s \<and> pathname s' = pathname s"
  by (auto simp: getOIDCConfig_def Let_def split: option.splits)

lemma storeTokens_requests: "requests (storeTokens w a r s) = requests s"
  by (simp add: storeTokens_def Let_def split: option.splits)

lemma clearTokens_requests: "requests (clearTokens s) = requests s"
  by (simp add: clearTokens_def)

lemma refresh_posts:
  assumes "truthy (refreshToken s)" and "getOIDCConfig w s = (Inr cfg, s1)"
  shows "token_posts (requests (snd (refreshAccessToken w s))) =
           token_posts (requests s) @
             [(token_endpoint cfg,
               [(''grant_type'', ''refresh_token''), (''refresh_token'', the (refreshToken s)),
                (''client_id'', CLIENT_ID)])]"
  using assms getOIDCConfig_keeps[OF assms(2)] getOIDCConfig_token_posts[OF assms(2)]
  by (simp add: refreshAccessToken_def Let_def token_posts_append storeTokens_requests
      clearTokens_requests split: option.splits)

lemma expired_getAccessToken:
  assumes "\<not> truthy (accessToken s) \<or> isTokenExpired w now (the (accessToken s))"
  shows "getAccessToken w now s =
           (if truthy (refreshToken s)
            then (case refreshAccessToken w s of
                    (Inl x, s1) \<Rightarrow> (Inl x, s1)
                  | (Inr success, s1) \<Rightarrow>
                      if success then (Inr (accessToken s1), s1) else (Inr None, s1))
            else (Inr None, s))"
  using assms by (auto simp: getAccessToken_def)

lemma failed_refresh:
  assumes "truthy (refreshToken s)"
    and "getOIDCConfig w s = (Inr cfg, sc)"
    and "fetch_token w (requests sc) (token_endpoint cfg)
           [(''grant_type'', ''refresh_token''), (''refresh_token'', the (refreshToken s)),
            (''client_id'', CLIENT_ID)] = Some res"
    and "\<not> ok res"
  shows "refreshAccessToken w s =
           (Inr False,
            clearTokens (sc\<lparr>requests := requests sc @
               [TokenPost (token_endpoint cfg)
                 [(''grant_type'', ''refresh_token''), (''refresh_token'', the (refreshToken s)),
                  (''client_id'', CLIENT_ID)]]\<rparr>))"
  using assms getOIDCConfig_keeps[OF assms(2)]
  by (simp add: refreshAccessToken_def Let_def)

lemma cleared_getAccessToken: "getAccessToken w now (clearTokens s) = (Inr None, clearTokens s)"
  by (simp add: getAccessToken_def clearTokens_def truthy_def)

lemma getOIDCConfig_server_token_posts:
  "getOIDCConfig_server w cfg s = (r, s') \<Longrightarrow> token_posts (outgoing s') = token_posts (outgoing s)"
  by (auto simp: getOIDCConfig_server_def Let_def token_posts_append split: option.splits)

lemma getJWKS_token_posts:
  "getJWKS w cfg s = (r, s') \<Longrightarrow> token_posts (outgoing s') = token_posts (outgoing s)"
  by (auto simp: getJWKS_def Let_def token_posts_append
      split: option.splits prod.splits sum.splits dest: getOIDCConfig_server_token_posts)

lemma login_stores:
  "login w v st s0 = (Inr (), s1) \<Longrightarrow>
     getItem (sessionStorage s1) ''pkce_verifier'' = Some v
     \<and> getItem (sessionStorage s1) ''auth_state'' = Some st"
  by (auto simp: login_def createPKCE_def getItem_setItem split: prod.splits sum.splits)

lemma handleCallback_posts:
  assumes "\<not> truthy (map_of (search s) ''error'')"
    and "map_of (search s) ''code'' = Some c" and "c \<noteq> []"
    and "map_of (search s) ''state'' = getItem (sessionStorage s) ''auth_state''"
    and "getItem (sessionStorage s) ''pkce_verifier'' = Some v" and "v \<noteq> []"
    and "getOIDCConfig w s = (Inr cfg, sc)"
  shows "token_posts (requests (snd (handleCallback w s))) =
           token_posts (requests s) @
             [(token_endpoint cfg,
               [(''grant_type'', ''authorization_code''), (''code'', c),
                (''redirect_uri'', REDIRECT_URI w), (''client_id'', CLIENT_ID),
                (''code_verifier'', v)])]"
  using assms getOIDCConfig_token_posts[OF assms(7)]
  by (simp add: handleCallback_def Let_def truthy_def token_posts_append storeTokens_requests
      split: option.splits)

lemma auth_callback_posts:
  assumes "\<not> truthy (map_of (query rq) ''error'')"
    and "truthy (map_of (query rq) ''state'')"
    and "map_of (query rq) ''state'' = getItem (jar rq) ''auth_state''"
    and "getOIDCConfig_server w cfg s = (Inr c, sc)"
  shows "token_posts (outgoing (snd (auth_callback w cfg now rq s))) =
           token_posts (outgoing s) @
             [(token_endpoint c,
               [(''grant_type'', ''authorization_code''),
                (''code'', (case map_of (query rq) ''code'' of None \<Rightarrow> ''undefined'' | Some x \<Rightarrow> x)),
                (''redirect_uri'', env_REDIRECT_URI cfg), (''client_id'', env_CLIENT_ID cfg),
                (''client_secret'', env_CLIENT_SECRET cfg)])]"
  using assms getOIDCConfig_server_token_posts[OF assms(4)]
  by (auto simp: auth_callback_def Let_def token_posts_append
      split: option.splits prod.splits sum.splits dest!: getJWKS_token_posts)

lemma nonce_check_reached:
  assumes "getItem (jar rq) ''auth_nonce'' = Some n" and "n \<noteq> []"
    and "\<not> truthy (map_of (query rq) ''error'')"
    and "truthy (map_of (query rq) ''state'')"
    and "map_of (query rq) ''state'' = getItem (jar rq) ''auth_state''"
    and "getOIDCConfig_server w env srv = (Inr cfg, sc)"
    and "fm = [(''grant_type'', ''authorization_code''),
               (''code'', (case map_of (query rq) ''code'' of None \<Rightarrow> ''undefined'' | Some x \<Rightarrow> x)),
               (''redirect_uri'', env_REDIRECT_URI env), (''client_id'', env_CLIENT_ID env),
               (''client_secret'', env_CLIENT_SECRET env)]"
    and "fetch_token w (outgoing sc) (token_endpoint cfg) fm = Some res" and "ok res"
    and "getJWKS w env (sc\<lparr>outgoing := outgoing sc @ [TokenPost (token_endpoint cfg) fm]\<rparr>) = (Inr ks, sk)"
    and "verify_id_token w ks (id_token res) = Some idt"
  shows "auth_callback w env now rq srv =
           (Inr (if nonce idt \<noteq> Some n
                 then \<lparr>status_code = 400, content = Text ''Invalid nonce'', set_cookies = []\<rparr>
                 else \<lparr>status_code = 302, content = Redirect (env_APP_URL env) [],
                       set_cookies = [SetCookie ''session'' (sign_session w (user_of idt) now) (30 * 24 * 60 * 60),
                                      DeleteCookie ''auth_state'', DeleteCookie ''auth_nonce'']\<rparr>), sk)"
  using assms
  by (simp add: auth_callback_def Let_def truthy_def)

lemma no_session_without_matching_nonce:
  assumes "getItem (jar rq) ''auth_nonce'' = Some n" and "n \<noteq> []"
    and "\<forall>ks t idt. verify_id_token w ks t = Some idt \<longrightarrow> nonce idt \<noteq> Some n"
    and "auth_callback w env now rq srv = (Inr resp, srv')"
  shows "set_cookies resp = [] \<and> content resp \<noteq> Redirect (env_APP_URL env) []"
  using assms
  by (auto simp: auth_callback_def Let_def truthy_def
      split: if_splits option.splits prod.splits sum.splits)

lemma dropWhile_unchanged: "xs = [] \<or> \<not> P (hd xs) \<Longrightarrow> dropWhile P xs = xs"
  by (cases xs) auto

lemma strip_end_keeps_head:
  assumes "xs = [] \<or> \<not> P (hd xs)"
  shows "rev (dropWhile P (rev xs)) = [] \<or> \<not> P (hd (rev (dropWhile P (rev xs))))"
proof (cases "rev (dropWhile P (rev xs)) = []")
  case True
  then show ?thesis by simp
next
  case False
  have "rev xs = takeWhile P (rev xs) @ dropWhile P (rev xs)"
    by simp
  then have "xs = rev (dropWhile P (rev xs)) @ rev (takeWhile P (rev xs))"
    by (metis rev_append rev_rev_ident)
  then have "hd xs = hd (rev (dropWhile P (rev xs)))"
    using False by (metis hd_append2)
  moreover have "xs \<noteq> []"
    using False by auto
  ultimately show ?thesis
    using assms by simp
qed

lemma trim_idem: "trim (trim s) = trim s"
proof -
  let ?u = "dropWhile is_space s"
  have "?u = [] \<or> \<not> is_space (hd ?u)"
    using hd_dropWhile[of is_space s] by blast
  then have "dropWhile is_space (trim s) = trim s"
    unfolding trim_def by (intro dropWhile_unchanged strip_end_keeps_head)
  moreover have "dropWhile is_space (rev (trim s)) = rev (trim s)"
    by (simp add: trim_def)
  ultimately show ?thesis
    by (simp add: trim_def)
qed

lemma post_todos_keeps_text:
  assumes "list_all (\<lambda>r. trimmed_nonempty (todo_text r)) (rows d)"
  shows "list_all (\<lambda>r. trimmed_nonempty (todo_text r)) (rows (snd (post_todos now t d)))"
  using assms
  by (simp add: post_todos_def db_insert_def Let_def trimmed_nonempty_def trim_idem
      split: option.splits)

lemma delete_todo_keeps_text:
  assumes "list_all (\<lambda>r. trimmed_nonempty (todo_text r)) (rows d)"
  shows "list_all (\<lambda>r. trimmed_nonempty (todo_text r)) (rows (snd (delete_todo i d)))"
  using assms
  by (simp add: delete_todo_def db_delete_def list_all_iff)

lemma patch_completed_keeps_text:
  assumes "list_all (\<lambda>r. trimmed_nonempty (todo_text r)) (rows d)"
  shows "list_all (\<lambda>r. trimmed_nonempty (todo_text r)) (rows (snd (patch_todo i None c d)))"
  using assms
  by (auto simp: patch_todo_def db_update_def set_fields_def Let_def list_all_iff
      split: option.splits list.splits)

lemma stored_token_returned:
  assumes "accessToken s = Some t" and "t \<noteq> []" and "decodePayload w t = Some p"
    and "exp p = None \<or> (\<exists>e. exp p = Some e \<and> now + 60000 \<le> e * 1000)"
  shows "getAccessToken w now s = (Inr (Some t), s)"
  using assms by (auto simp: getAccessToken_def isTokenExpired_def truthy_def)

lemma stored_token_withheld:
  assumes "accessToken s = Some t"
    and "decodePayload w t = None
         \<or> (\<exists>p e. decodePayload w t = Some p \<and> exp p = Some e \<and> e * 1000 < now + 60000)"
    and "\<not> truthy (refreshToken s)"
  shows "getAccessToken w now s = (Inr None, s)"
  using assms by (auto simp: getAccessToken_def isTokenExpired_def truthy_def)

lemma returned_token_origin:
  assumes "getAccessToken w now s = (Inr (Some t), s')"
  shows "(accessToken s = Some t \<and> t \<noteq> [] \<and> s' = s
          \<and> (\<exists>p. decodePayload w t = Some p
                \<and> (exp p = None \<or> (\<exists>e. exp p = Some e \<and> now + 60000 \<le> e * 1000))))
         \<or> (truthy (refreshToken s) \<and> refreshAccessToken w s = (Inr True, s')
            \<and> accessToken s' = Some t)"
  using assms
  by (auto simp: getAccessToken_def isTokenExpired_def truthy_def
      split: option.splits if_splits prod.splits sum.splits)

lemma nonce_check_skipped:
  assumes "\<not> truthy (getItem (jar rq) ''auth_nonce'')"
    and "\<not> truthy (map_of (query rq) ''error'')"
    and "truthy (map_of (query rq) ''state'')"
    and "map_of (query rq) ''state'' = getItem (jar rq) ''auth_state''"
    and "getOIDCConfig_server w env srv = (Inr cfg, sc)"
    and "fm = [(''grant_type'', ''authorization_code''),
               (''code'', (case map_of (query rq) ''code'' of None \<Rightarrow> ''undefined'' | Some x \<Rightarrow> x)),
               (''redirect_uri'', env_REDIRECT_URI env), (''client_id'', env_CLIENT_ID env),
               (''client_secret'', env_CLIENT_SECRET env)]"
    and "fetch_token w (outgoing sc) (token_endpoint cfg) fm = Some res" and "ok res"
    and "getJWKS w env (sc\<lparr>outgoing := outgoing sc @ [TokenPost (token_endpoint cfg) fm]\<rparr>) = (Inr ks, sk)"
    and "verify_id_token w ks (id_token res) = Some idt"
  shows "auth_callback w env now rq srv =
           (Inr \<lparr>status_code = 302, content = Redirect (env_APP_URL env) [],
                 set_cookies = [SetCookie ''session'' (sign_session w (user_of idt) now) (30 * 24 * 60 * 60),
                                DeleteCookie ''auth_state'', DeleteCookie ''auth_nonce'']\<rparr>, sk)"
  using assms
  by (simp add: auth_callback_def Let_def)


section \<open>The guard of the todo routes\<close>

text \<open>
  Claim C1, as the code has it. In the bearer and in the session backend, a request to
  a todo route that carries no valid credential is answered with status 401 and the
  store is left as it was: no statement is executed. The body is
  \<open>{"error":"unauthorized"}\<close> in the session backend and for a missing or malformed
  \<open>Authorization\<close> header in the bearer backend, and \<open>{"error":"invalid_token"}\<close>
  when the bearer token does not verify. (The first backend has no guard.)
\<close>

theorem guarded_backends_reject_without_credential:
  assumes "v = Bearer \<or> v = Session" and "\<not> valid_credential v jwtVerify rq"
  shows "app v jwtVerify now rq d =
           (\<lparr>status = 401,
             body = ErrorBody (if v = Bearer \<and> has_bearer_header rq then ''invalid_token''
                               else ''unauthorized'')\<rparr>, d)"
  using assms
  by (cases v)
     (auto simp: app_def valid_credential_def has_bearer_header_def requireAuth_bearer_def
        requireAuth_session_def getSession_def split: option.splits)

theorem guarded_backends_reject_without_credential_witness:
  "(Session = Bearer \<or> Session = Session)
   \<and> \<not> valid_credential Session reject_all
         \<lparr>route = DeleteTodo 1, authorization = None, cookies = [(''session'', ''forged'')]\<rparr>
   \<and> app Session reject_all 0
         \<lparr>route = DeleteTodo 1, authorization = None, cookies = [(''session'', ''forged'')]\<rparr> one_todo
       = (\<lparr>status = 401, body = ErrorBody ''unauthorized''\<rparr>, one_todo)"
  using guarded_backends_reject_without_credential
    [of Session reject_all
      "\<lparr>route = DeleteTodo 1, authorization = None, cookies = [(''session'', ''forged'')]\<rparr>" 0 one_todo]
  by (simp add: valid_credential_def getItem_def reject_all_def)

text \<open>
  Claim C1 as stated fails twice. The unguarded backend answers \<open>GET /api/todos\<close>
  with no credential by status 200, after running the \<open>SELECT\<close>; and the bearer
  backend answers a token that does not verify with the body
  \<open>{"error":"invalid_token"}\<close>.
\<close>

theorem unguarded_backend_serves_without_credential:
  "app Unguarded reject_all 0 \<lparr>route = GetTodos, authorization = None, cookies = []\<rparr> one_todo
     = (\<lparr>status = 200, body = TodoList (rows one_todo)\<rparr>, one_todo\<lparr>queries := [Select]\<rparr>)
   \<and> app Bearer reject_all 0
         \<lparr>route = GetTodos, authorization = Some ''Bearer h.forged.s'', cookies = []\<rparr> one_todo
     = (\<lparr>status = 401, body = ErrorBody ''invalid_token''\<rparr>, one_todo)"
  by (simp add: app_def handle_def get_todos_def db_select_def one_todo_def
        requireAuth_bearer_def startsWith_def slice_def reject_all_def)


section \<open>The text of a stored todo\<close>

text \<open>
  Claim C9 does not hold of the code. In a store whose todos all have a non-empty,
  trimmed text, \<open>PATCH /api/todos/1\<close> with the body \<open>{"text":"  "}\<close>, sent with a
  valid credential, is accepted with status 200 and leaves the todo with the text of
  two spaces, which is not trimmed; \<open>POST /api/todos\<close> rejects the same text with
  status 400. (Creation, deletion and a patch of \<open>completed\<close> alone keep every text
  non-empty and trimmed: \<open>post_todos_keeps_text\<close>, \<open>delete_todo_keeps_text\<close>,
  \<open>patch_completed_keeps_text\<close>.)
\<close>

theorem patch_stores_blank_text:
  "list_all (\<lambda>r. trimmed_nonempty (todo_text r)) (rows one_todo)
   \<and> app Bearer accept_all 0
      \<lparr>route = PatchTodo 1 (Some ''  '') None, authorization = Some ''Bearer h.fresh.s'', cookies = []\<rparr>
      one_todo
     = (\<lparr>status = 200,
         body = TodoBody \<lparr>todo_id = 1, todo_text = ''  '', completed = False, created_at = 5\<rparr>\<rparr>,
        \<lparr>rows = [\<lparr>todo_id = 1, todo_text = ''  '', completed = False, created_at = 5\<rparr>],
         next_id = 2, queries = [Update (Some ''  '') None 1]\<rparr>)
   \<and> \<not> trimmed_nonempty ''  ''
   \<and> app Bearer accept_all 0
      \<lparr>route = PostTodos (Some ''  ''), authorization = Some ''Bearer h.fresh.s'', cookies = []\<rparr>
      one_todo
     = (\<lparr>status = 400, body = ErrorBody ''text is required''\<rparr>, one_todo)"
  by (simp add: app_def handle_def patch_todo_def post_todos_def db_update_def set_fields_def one_todo_def
        requireAuth_bearer_def startsWith_def slice_def accept_all_def trim_def is_space_def
        trimmed_nonempty_def)


section \<open>The state check of the callback\<close>

text \<open>
  Claim C3. When the \<open>state\<close> parameter of the callback differs from the stored
  state, the flow fails and no request has been made. In the browser,
  \<open>handleCallback\<close> returns \<open>false\<close> and leaves the module as it was, the request
  log included. In the session backend the callback answers 400
  \<open>Invalid state parameter\<close> (or, when the provider sent an \<open>error\<close>, the redirect
  that reports it), sets no cookie and leaves the backend as it was, the request log
  included.
\<close>

theorem state_mismatch_makes_no_request:
  "(map_of (search s) ''state'' \<noteq> getItem (sessionStorage s) ''auth_state''
      \<longrightarrow> handleCallback w s = (Inr False, s)
          \<and> token_posts (requests (snd (handleCallback w s))) = token_posts (requests s))
   \<and> (map_of (query rq) ''state'' \<noteq> getItem (jar rq) ''auth_state''
      \<longrightarrow> auth_callback w cfg now rq srv =
            (Inr (if truthy (map_of (query rq) ''error'')
                  then \<lparr>status_code = 302,
                        content = Redirect (env_APP_URL cfg @ ''?error='' @ the (map_of (query rq) ''error'')) [],
                        set_cookies = []\<rparr>
                  else \<lparr>status_code = 400, content = Text ''Invalid state parameter'', set_cookies = []\<rparr>),
             srv)
          \<and> token_posts (outgoing (snd (auth_callback w cfg now rq srv))) = token_posts (outgoing srv))"
  by (simp add: handleCallback_def auth_callback_def Let_def)

theorem state_mismatch_makes_no_request_witness:
  "map_of (search (callback_page [(''code'', ''c1''), (''state'', ''evil'')])) ''state''
      \<noteq> getItem (sessionStorage (callback_page [(''code'', ''c1''), (''state'', ''evil'')])) ''auth_state''
   \<and> handleCallback demo_world (callback_page [(''code'', ''c1''), (''state'', ''evil'')])
      = (Inr False, callback_page [(''code'', ''c1''), (''state'', ''evil'')])
   \<and> requests (snd (handleCallback demo_world (callback_page [(''code'', ''c1''), (''state'', ''evil'')]))) = []
   \<and> map_of (query \<lparr>query = [(''code'', ''c1''), (''state'', ''evil'')],
                      jar = [(''auth_state'', ''state-1''), (''auth_nonce'', ''nonce-A'')]\<rparr>) ''state''
      \<noteq> getItem (jar \<lparr>query = [(''code'', ''c1''), (''state'', ''evil'')],
                      jar = [(''auth_state'', ''state-1''), (''auth_nonce'', ''nonce-A'')]\<rparr>) ''auth_state''
   \<and> auth_callback demo_world demo_settings 0
        \<lparr>query = [(''code'', ''c1''), (''state'', ''evil'')],
         jar = [(''auth_state'', ''state-1''), (''auth_nonce'', ''nonce-A'')]\<rparr> fresh_server
      = (Inr \<lparr>status_code = 400, content = Text ''Invalid state parameter'', set_cookies = []\<rparr>,
         fresh_server)"
  using state_mismatch_makes_no_request
    [of "callback_page [(''code'', ''c1''), (''state'', ''evil'')]" demo_world
        "\<lparr>query = [(''code'', ''c1''), (''state'', ''evil'')],
          jar = [(''auth_state'', ''state-1''), (''auth_nonce'', ''nonce-A'')]\<rparr>"
        demo_settings 0 fresh_server]
  by (simp add: callback_page_def load_module_def login_def getOIDCConfig_def fresh_page_def
        demo_world_def createPKCE_def getItem_def setItem_def truthy_def)


section \<open>Expiry and refresh in the browser\<close>

text \<open>
  Claim C7. A stored access token whose \<open>exp\<close> claim lies less than 60 seconds after
  \<open>Date.now()\<close> is classified as expired by \<open>isTokenExpired\<close>, and
  \<open>getAccessToken\<close> does not return it directly: with no refresh token it returns
  \<open>null\<close> and leaves the module as it was; with a refresh token its result is that
  of the refresh (the token the refresh stored, or \<open>null\<close> when the refresh was
  refused), and once discovery has answered one request with grant type
  \<open>refresh_token\<close> has gone to the token endpoint.
\<close>

theorem near_expiry_token_is_refreshed:
  assumes "accessToken s = Some t" and "decodePayload w t = Some p" and "exp p = Some e"
    and "e * 1000 - now < 60000"
  shows "isTokenExpired w now t
     \<and> getAccessToken w now s =
         (if truthy (refreshToken s)
          then (case refreshAccessToken w s of
                  (Inl x, s1) \<Rightarrow> (Inl x, s1)
                | (Inr success, s1) \<Rightarrow>
                    if success then (Inr (accessToken s1), s1) else (Inr None, s1))
          else (Inr None, s))
     \<and> (truthy (refreshToken s) \<and> getOIDCConfig w s = (Inr cfg, sc) \<longrightarrow>
          token_posts (requests (snd (getAccessToken w now s))) =
            token_posts (requests s) @
              [(token_endpoint cfg,
                [(''grant_type'', ''refresh_token''), (''refresh_token'', the (refreshToken s)),
                 (''client_id'', CLIENT_ID)])])"
proof -
  have e: "isTokenExpired w now t"
    using assms by (simp add: isTokenExpired_def)
  then have g: "getAccessToken w now s =
         (if truthy (refreshToken s)
          then (case refreshAccessToken w s of
                  (Inl x, s1) \<Rightarrow> (Inl x, s1)
                | (Inr success, s1) \<Rightarrow>
                    if success then (Inr (accessToken s1), s1) else (Inr None, s1))
          else (Inr None, s))"
    using assms(1) by (simp add: expired_getAccessToken)
  have "snd (getAccessToken w now s) = snd (refreshAccessToken w s)" if "truthy (refreshToken s)"
    using that unfolding g by (simp split: prod.splits sum.splits)
  then show ?thesis
    using e g refresh_posts by simp
qed

theorem near_expiry_token_is_refreshed_witness:
  "accessToken soon_page = Some ''h.soon.s''
   \<and> decodePayload demo_world ''h.soon.s'' = Some (alice (Some 5030) None)
   \<and> exp (alice (Some 5030) None) = Some 5030
   \<and> (5030::int) * 1000 - 5000000 < 60000
   \<and> isTokenExpired demo_world 5000000 ''h.soon.s''
   \<and> fst (getAccessToken demo_world 5000000 soon_page) = Inr (Some ''h.fresh.s'')
   \<and> token_posts (requests (snd (getAccessToken demo_world 5000000 soon_page))) =
        [(''https://idp/token'',
          [(''grant_type'', ''refresh_token''), (''refresh_token'', ''refresh-1''),
           (''client_id'', CLIENT_ID)])]"
proof -
  have a: "accessToken soon_page = Some ''h.soon.s''"
    by (simp add: soon_page_def storeTokens_def Let_def split: option.splits)
  have d: "decodePayload demo_world ''h.soon.s'' = Some (alice (Some 5030) None)"
    by (simp add: decodePayload_def demo_world_def demo_atob_json_def)
  have x: "exp (alice (Some 5030) None) = Some 5030"
    by (simp add: alice_def)
  have l: "(5030::int) * 1000 - 5000000 < 60000" by simp
  have r: "truthy (refreshToken soon_page)" "the (refreshToken soon_page) = ''refresh-1''"
    "requests soon_page = []"
    by (simp_all add: soon_page_def storeTokens_def Let_def truthy_def fresh_page_def load_module_def
        split: option.splits)
  have c: "getOIDCConfig demo_world soon_page =
      (Inr demo_config, soon_page\<lparr>config := Some demo_config,
         requests := [Discovery (OIDC_ISSUER @ ''.well-known/openid-configuration'')]\<rparr>)"
    by (simp add: getOIDCConfig_def demo_world_def soon_page_def storeTokens_def Let_def
        fresh_page_def load_module_def split: option.splits)
  note T = near_expiry_token_is_refreshed[OF a d x l, where cfg = demo_config
        and sc = "soon_page\<lparr>config := Some demo_config,
         requests := [Discovery (OIDC_ISSUER @ ''.well-known/openid-configuration'')]\<rparr>"]
  have e: "isTokenExpired demo_world 5000000 ''h.soon.s''"
    using T by (rule conjunct1)
  have f: "fst (getAccessToken demo_world 5000000 soon_page) = Inr (Some ''h.fresh.s'')"
    using T[THEN conjunct2, THEN conjunct1] r(1) c
    by (simp add: refreshAccessToken_def Let_def demo_world_def demo_reply_def storeTokens_def
        split: option.splits)
  have p: "token_posts (requests (snd (getAccessToken demo_world 5000000 soon_page))) =
        [(''https://idp/token'',
          [(''grant_type'', ''refresh_token''), (''refresh_token'', ''refresh-1''),
           (''client_id'', CLIENT_ID)])]"
    using T[THEN conjunct2, THEN conjunct2] r c
    by (simp add: demo_config_def)
  show ?thesis
    using a d x l e f p by simp
qed


text \<open>
  Claim C8. When a refresh is attempted (a refresh token is stored, discovery has
  answered) and the token endpoint answers with a status that is not 2xx,
  \<open>refreshAccessToken\<close> returns \<open>false\<close> and leaves no access token, no refresh
  token and no decoded user in memory and neither token in \<open>sessionStorage\<close>; from
  that state \<open>getAccessToken\<close> returns \<open>null\<close> and changes nothing, whatever the
  provider and the clock, so every later call does too. A \<open>getAccessToken\<close> that
  made the refresh itself returns \<open>null\<close> in the same cleared state.
\<close>

theorem failed_refresh_clears_credentials:
  assumes "truthy (refreshToken s)"
    and "getOIDCConfig w s = (Inr cfg, sc)"
    and "fetch_token w (requests sc) (token_endpoint cfg)
           [(''grant_type'', ''refresh_token''), (''refresh_token'', the (refreshToken s)),
            (''client_id'', CLIENT_ID)] = Some res"
    and "\<not> ok res"
  shows "fst (refreshAccessToken w s) = Inr False
     \<and> accessToken (snd (refreshAccessToken w s)) = None
     \<and> refreshToken (snd (refreshAccessToken w s)) = None
     \<and> current_user (snd (refreshAccessToken w s)) = None
     \<and> getItem (sessionStorage (snd (refreshAccessToken w s))) ''access_token'' = None
     \<and> getItem (sessionStorage (snd (refreshAccessToken w s))) ''refresh_token'' = None
     \<and> (\<forall>w' now'. getAccessToken w' now' (snd (refreshAccessToken w s))
            = (Inr None, snd (refreshAccessToken w s)))
     \<and> (\<not> truthy (accessToken s) \<or> isTokenExpired w now (the (accessToken s)) \<longrightarrow>
           getAccessToken w now s = (Inr None, snd (refreshAccessToken w s)))"
proof -
  note r = failed_refresh[OF assms]
  have fields: "fst (refreshAccessToken w s) = Inr False
     \<and> accessToken (snd (refreshAccessToken w s)) = None
     \<and> refreshToken (snd (refreshAccessToken w s)) = None
     \<and> current_user (snd (refreshAccessToken w s)) = None
     \<and> getItem (sessionStorage (snd (refreshAccessToken w s))) ''access_token'' = None
     \<and> getItem (sessionStorage (snd (refreshAccessToken w s))) ''refresh_token'' = None"
    unfolding r by (simp add: clearTokens_def getItem_removeItem)
  have later: "\<forall>w' now'. getAccessToken w' now' (snd (refreshAccessToken w s))
            = (Inr None, snd (refreshAccessToken w s))"
    unfolding r by (simp add: cleared_getAccessToken)
  have through: "\<not> truthy (accessToken s) \<or> isTokenExpired w now (the (accessToken s)) \<longrightarrow>
           getAccessToken w now s = (Inr None, snd (refreshAccessToken w s))"
    using assms(1) by (simp add: expired_getAccessToken r)
  show ?thesis
    using fields later through by blast
qed

theorem failed_refresh_clears_credentials_witness:
  "truthy (refreshToken expired_page)
   \<and> getOIDCConfig refusing_world expired_page
       = (Inr demo_config,
          expired_page\<lparr>config := Some demo_config,
            requests := [Discovery (OIDC_ISSUER @ ''.well-known/openid-configuration'')]\<rparr>)
   \<and> \<not> ok (demo_reply\<lparr>ok := False\<rparr>)
   \<and> fst (refreshAccessToken refusing_world expired_page) = Inr False
   \<and> accessToken (snd (refreshAccessToken refusing_world expired_page)) = None
   \<and> refreshToken (snd (refreshAccessToken refusing_world expired_page)) = None
   \<and> current_user (snd (refreshAccessToken refusing_world expired_page)) = None
   \<and> sessionStorage (snd (refreshAccessToken refusing_world expired_page)) = []
   \<and> getAccessToken demo_world 5000000 (snd (refreshAccessToken refusing_world expired_page))
       = (Inr None, snd (refreshAccessToken refusing_world expired_page))"
proof -
  have c: "getOIDCConfig refusing_world expired_page
       = (Inr demo_config,
          expired_page\<lparr>config := Some demo_config,
            requests := [Discovery (OIDC_ISSUER @ ''.well-known/openid-configuration'')]\<rparr>)"
    by (simp add: getOIDCConfig_def refusing_world_def demo_world_def expired_page_def
        storeTokens_def fresh_page_def load_module_def Let_def split: option.splits)
  have t: "truthy (refreshToken expired_page)"
    by (simp add: expired_page_def storeTokens_def fresh_page_def load_module_def Let_def truthy_def
        split: option.splits)
  have f: "fetch_token refusing_world
             (requests (expired_page\<lparr>config := Some demo_config,
                requests := [Discovery (OIDC_ISSUER @ ''.well-known/openid-configuration'')]\<rparr>))
             (token_endpoint demo_config)
             [(''grant_type'', ''refresh_token''), (''refresh_token'', the (refreshToken expired_page)),
              (''client_id'', CLIENT_ID)] = Some (demo_reply\<lparr>ok := False\<rparr>)"
    by (simp add: refusing_world_def)
  have n: "\<not> ok (demo_reply\<lparr>ok := False\<rparr>)" by simp
  have s: "sessionStorage (snd (refreshAccessToken refusing_world expired_page)) = []"
    unfolding failed_refresh[OF t c f n]
    by (simp add: clearTokens_def expired_page_def storeTokens_def fresh_page_def load_module_def
        Let_def removeItem_def setItem_def demo_world_def decodePayload_def demo_atob_json_def)
  show ?thesis
    using failed_refresh_clears_credentials[OF t c f n, of 0] t c s by simp
qed

text \<open>
  Claim C10. When the access token handed to \<open>storeTokens\<close> has no decodable
  payload, the decoded user is \<open>null\<close> and \<open>isTokenExpired\<close> says the token is
  expired. With a (non-empty) access token of this kind and a refresh token present,
  \<open>isAuthenticated\<close> is true while \<open>getUser\<close> is \<open>null\<close>; the same holds of
  a page that has just loaded such tokens from \<open>sessionStorage\<close>. The four functions
  return plain values: the \<open>try\<close>/\<open>catch\<close> around decoding turns the failure into
  \<open>null\<close> and \<open>true\<close>.
\<close>

theorem undecodable_token_authenticated_without_user:
  assumes "decodePayload w access = None"
  shows "current_user (storeTokens w access refresh s) = None
     \<and> isTokenExpired w now access
     \<and> (access \<noteq> [] \<and> truthy (refreshToken (storeTokens w access refresh s)) \<longrightarrow>
          isAuthenticated w now (storeTokens w access refresh s)
          \<and> getUser w now (storeTokens w access refresh s) = None)
     \<and> (getItem st ''access_token'' = Some access \<and> access \<noteq> []
          \<and> truthy (getItem st ''refresh_token'') \<longrightarrow>
          isAuthenticated w now (load_module st path q lg)
          \<and> getUser w now (load_module st path q lg) = None)"
  using assms
  by (simp add: storeTokens_def isTokenExpired_def isAuthenticated_def getUser_def load_module_def
      Let_def truthy_def split: option.splits)

theorem undecodable_token_authenticated_without_user_witness:
  "decodePayload demo_world ''opaque-token'' = None
   \<and> ''opaque-token'' \<noteq> []
   \<and> truthy (refreshToken (storeTokens demo_world ''opaque-token'' (Some ''refresh-1'') fresh_page))
   \<and> current_user (storeTokens demo_world ''opaque-token'' (Some ''refresh-1'') fresh_page) = None
   \<and> isTokenExpired demo_world 0 ''opaque-token''
   \<and> isAuthenticated demo_world 0 (storeTokens demo_world ''opaque-token'' (Some ''refresh-1'') fresh_page)
   \<and> getUser demo_world 0 (storeTokens demo_world ''opaque-token'' (Some ''refresh-1'') fresh_page) = None"
proof -
  have d: "decodePayload demo_world ''opaque-token'' = None"
    by (simp add: decodePayload_def)
  have r: "truthy (refreshToken (storeTokens demo_world ''opaque-token'' (Some ''refresh-1'') fresh_page))"
    by (simp add: storeTokens_def Let_def truthy_def split: option.splits)
  show ?thesis
    using undecodable_token_authenticated_without_user
      [OF d, of "Some ''refresh-1''" fresh_page 0] d r
    by simp
qed


section \<open>What counts as a usable credential\<close>

text \<open>
  Claim C6 as stated fails in the browser. With the expired access token
  \<open>h.old.s\<close> and a refresh token stored, \<open>isAuthenticated\<close> is true and
  \<open>getUser\<close> returns the user decoded from the expired token; and when the provider
  answers the refresh with a token that is itself expired, \<open>getAccessToken\<close> returns
  that token.
\<close>

theorem expired_token_still_authenticated:
  "accessToken expired_page = Some ''h.old.s''
   \<and> isTokenExpired demo_world 5000000 ''h.old.s''
   \<and> isAuthenticated demo_world 5000000 expired_page
   \<and> getUser demo_world 5000000 expired_page
       = Some \<lparr>user_sub = ''alice'', user_email = ''alice@example.org'', user_name = ''Alice''\<rparr>
   \<and> fst (getAccessToken stale_world 5000000 expired_page) = Inr (Some ''h.old.s'')
   \<and> isTokenExpired stale_world 5000000 ''h.old.s''"
  by (simp add: expired_page_def storeTokens_def fresh_page_def load_module_def Let_def
        isTokenExpired_def isAuthenticated_def getUser_def getAccessToken_def refreshAccessToken_def
        getOIDCConfig_def stale_world_def demo_world_def demo_reply_def
        decodePayload_def demo_atob_json_def alice_def user_of_def or_else_def truthy_def
        getItem_def setItem_def)

text \<open>
  Claim C6, as the code has it.
  \<^item> \<open>getSession\<close> returns \<open>null\<close> whenever the session cookie is missing, empty
    or does not verify.
  \<^item> \<open>isTokenExpired\<close> is true of a token whose payload does not decode, false of
    one whose payload has no \<open>exp\<close> claim, and otherwise true exactly when
    \<open>exp * 1000 < now + 60000\<close>.
  \<^item> \<open>getAccessToken\<close> returns the stored token, and changes nothing, when the
    token is non-empty, its payload decodes and the payload has no \<open>exp\<close> claim or
    one with \<open>now + 60000 \<le> exp * 1000\<close> (60 seconds or more before expiry). With
    a stored token that does not decode, or with \<open>exp * 1000 < now + 60000\<close>, and
    no refresh token it returns \<open>null\<close>.
  \<^item> A token returned by \<open>getAccessToken\<close> is either such a stored token or the
    one a successful refresh has just stored (which is not checked again).
  \<^item> \<open>getUser\<close> returns \<open>null\<close> and \<open>isAuthenticated\<close> false when no access
    token is stored, or when \<open>isTokenExpired\<close> holds of it and no refresh token is
    stored.
  \<^item> With an access token of which \<open>isTokenExpired\<close> does not hold, or with any
    access token and a refresh token, \<open>isAuthenticated\<close> is true and \<open>getUser\<close>
    returns the user last decoded.
\<close>

theorem credential_use_in_both_clients:
  "((\<forall>c. getItem cs ''session'' = Some c \<longrightarrow> c = [] \<or> jwtVerify c = None)
      \<longrightarrow> getSession jwtVerify cs = None)
   \<and> (decodePayload w t = None \<longrightarrow> isTokenExpired w now t)
   \<and> (decodePayload w t = Some p \<and> exp p = None \<longrightarrow> \<not> isTokenExpired w now t)
   \<and> (decodePayload w t = Some p \<and> exp p = Some e \<longrightarrow>
        isTokenExpired w now t = (e * 1000 < now + 60000))
   \<and> (accessToken s = Some t \<and> t \<noteq> [] \<and> decodePayload w t = Some p
        \<and> (exp p = None \<or> (\<exists>x. exp p = Some x \<and> now + 60000 \<le> x * 1000))
      \<longrightarrow> getAccessToken w now s = (Inr (Some t), s))
   \<and> (accessToken s = Some t
        \<and> (decodePayload w t = None
            \<or> (\<exists>q x. decodePayload w t = Some q \<and> exp q = Some x \<and> x * 1000 < now + 60000))
        \<and> \<not> truthy (refreshToken s)
      \<longrightarrow> getAccessToken w now s = (Inr None, s))
   \<and> (getAccessToken w now s = (Inr (Some t), s') \<longrightarrow>
        (accessToken s = Some t \<and> t \<noteq> [] \<and> s' = s
         \<and> (\<exists>q. decodePayload w t = Some q
               \<and> (exp q = None \<or> (\<exists>x. exp q = Some x \<and> now + 60000 \<le> x * 1000))))
        \<or> (truthy (refreshToken s) \<and> refreshAccessToken w s = (Inr True, s')
            \<and> accessToken s' = Some t))
   \<and> (\<not> truthy (accessToken s)
        \<or> (isTokenExpired w now (the (accessToken s)) \<and> \<not> truthy (refreshToken s))
      \<longrightarrow> getUser w now s = None \<and> \<not> isAuthenticated w now s)
   \<and> (truthy (accessToken s)
        \<and> (\<not> isTokenExpired w now (the (accessToken s)) \<or> truthy (refreshToken s))
      \<longrightarrow> getUser w now s = current_user s \<and> isAuthenticated w now s)"
proof -
  have session: "(\<forall>c. getItem cs ''session'' = Some c \<longrightarrow> c = [] \<or> jwtVerify c = None)
      \<longrightarrow> getSession jwtVerify cs = None"
    by (auto simp: getSession_def split: option.splits)
  have expiry: "(decodePayload w t = None \<longrightarrow> isTokenExpired w now t)
     \<and> (decodePayload w t = Some p \<and> exp p = None \<longrightarrow> \<not> isTokenExpired w now t)
     \<and> (decodePayload w t = Some p \<and> exp p = Some e \<longrightarrow>
          isTokenExpired w now t = (e * 1000 < now + 60000))"
    by (simp add: isTokenExpired_def)
  have report: "(\<not> truthy (accessToken s)
        \<or> (isTokenExpired w now (the (accessToken s)) \<and> \<not> truthy (refreshToken s))
      \<longrightarrow> getUser w now s = None \<and> \<not> isAuthenticated w now s)
   \<and> (truthy (accessToken s)
        \<and> (\<not> isTokenExpired w now (the (accessToken s)) \<or> truthy (refreshToken s))
      \<longrightarrow> getUser w now s = current_user s \<and> isAuthenticated w now s)"
    by (auto simp: getUser_def isAuthenticated_def)
  show ?thesis
    using session expiry report stored_token_returned[of s t w p now]
      stored_token_withheld[of s t w now] returned_token_origin[of w now s t s']
    by blast
qed

theorem credential_use_in_both_clients_witness:
  "getItem [(''session'', ''forged'')] ''session'' = Some ''forged''
   \<and> reject_all ''forged'' = None
   \<and> getSession reject_all [(''session'', ''forged'')] = None
   \<and> decodePayload edge_world ''h.fresh.s'' = Some (alice (Some 9000) None)
   \<and> \<not> isTokenExpired edge_world 5000000 ''h.fresh.s''
   \<and> getAccessToken edge_world 5000000 (token_page ''h.fresh.s'')
        = (Inr (Some ''h.fresh.s''), token_page ''h.fresh.s'')
   \<and> decodePayload edge_world ''h.edge.s'' = Some (alice (Some 5060) None)
   \<and> (5000000::int) + 60000 \<le> 5060 * 1000
   \<and> getAccessToken edge_world 5000000 (token_page ''h.edge.s'')
        = (Inr (Some ''h.edge.s''), token_page ''h.edge.s'')
   \<and> decodePayload edge_world ''h.noexp.s'' = Some (alice None None)
   \<and> getAccessToken edge_world 5000000 (token_page ''h.noexp.s'')
        = (Inr (Some ''h.noexp.s''), token_page ''h.noexp.s'')
   \<and> decodePayload edge_world ''h.old.s'' = Some (alice (Some 1000) None)
   \<and> isTokenExpired edge_world 5000000 ''h.old.s''
   \<and> \<not> truthy (refreshToken (token_page ''h.old.s''))
   \<and> getAccessToken edge_world 5000000 (token_page ''h.old.s'') = (Inr None, token_page ''h.old.s'')
   \<and> getUser edge_world 5000000 (token_page ''h.old.s'') = None
   \<and> \<not> isAuthenticated edge_world 5000000 (token_page ''h.old.s'')
   \<and> decodePayload edge_world ''opaque'' = None
   \<and> isTokenExpired edge_world 5000000 ''opaque''
   \<and> getAccessToken edge_world 5000000 (token_page ''opaque'') = (Inr None, token_page ''opaque'')
   \<and> fst (getAccessToken stale_world 5000000 expired_page) = Inr (Some ''h.old.s'')
   \<and> truthy (refreshToken expired_page)
   \<and> refreshAccessToken stale_world expired_page
        = (Inr True, snd (getAccessToken stale_world 5000000 expired_page))
   \<and> getUser demo_world 5000000 expired_page = current_user expired_page
   \<and> isAuthenticated demo_world 5000000 expired_page"
proof -
  note T = credential_use_in_both_clients
    [where cs = "[(''session'', ''forged'')]" and jwtVerify = reject_all and now = 5000000]
  have dec: "decodePayload edge_world ''h.fresh.s'' = Some (alice (Some 9000) None)"
    "decodePayload edge_world ''h.edge.s'' = Some (alice (Some 5060) None)"
    "decodePayload edge_world ''h.noexp.s'' = Some (alice None None)"
    "decodePayload edge_world ''h.old.s'' = Some (alice (Some 1000) None)"
    "decodePayload edge_world ''opaque'' = None"
    "decodePayload stale_world ''h.old.s'' = Some (alice (Some 1000) None)"
    "decodePayload demo_world ''h.old.s'' = Some (alice (Some 1000) None)"
    by (simp_all add: decodePayload_def edge_world_def stale_world_def demo_world_def
        edge_atob_json_def demo_atob_json_def)
  have ex: "exp (alice (Some 9000) None) = Some 9000" "exp (alice (Some 5060) None) = Some 5060"
    "exp (alice None None) = None" "exp (alice (Some 1000) None) = Some 1000"
    by (simp_all add: alice_def)
  have page: "accessToken (token_page a) = Some a" "\<not> truthy (refreshToken (token_page a))" for a
    by (simp_all add: token_page_def storeTokens_def fresh_page_def load_module_def Let_def
        truthy_def getItem_def split: option.splits)
  have a: "accessToken expired_page = Some ''h.old.s''" "truthy (refreshToken expired_page)"
    by (simp_all add: expired_page_def storeTokens_def fresh_page_def load_module_def Let_def
        truthy_def split: option.splits)
  have c: "\<forall>c. getItem [(''session'', ''forged'')] ''session'' = Some c \<longrightarrow> c = [] \<or> reject_all c = None"
    by (simp add: reject_all_def)
  note Tf = T[where w = edge_world and t = "''h.fresh.s''" and p = "alice (Some 9000) None"
      and e = 9000 and s = "token_page ''h.fresh.s''" and s' = "token_page ''h.fresh.s''"]
  note Te = T[where w = edge_world and t = "''h.edge.s''" and p = "alice (Some 5060) None"
      and e = 5060 and s = "token_page ''h.edge.s''" and s' = "token_page ''h.edge.s''"]
  note Tn = T[where w = edge_world and t = "''h.noexp.s''" and p = "alice None None"
      and e = 0 and s = "token_page ''h.noexp.s''" and s' = "token_page ''h.noexp.s''"]
  note To = T[where w = edge_world and t = "''h.old.s''" and p = "alice (Some 1000) None"
      and e = 1000 and s = "token_page ''h.old.s''" and s' = "token_page ''h.old.s''"]
  note Tq = T[where w = edge_world and t = "''opaque''" and p = "alice None None"
      and e = 0 and s = "token_page ''opaque''" and s' = "token_page ''opaque''"]
  note Ts = T[where w = stale_world and t = "''h.old.s''" and p = "alice (Some 1000) None"
      and e = 1000 and s = expired_page and s' = "snd (getAccessToken stale_world 5000000 expired_page)"]
  note Td = T[where w = demo_world and t = "''h.old.s''" and p = "alice (Some 1000) None"
      and e = 1000 and s = expired_page and s' = expired_page]
  have s1: "getSession reject_all [(''session'', ''forged'')] = None"
    using Tf c by blast
  have f1: "\<not> isTokenExpired edge_world 5000000 ''h.fresh.s''"
    using Tf dec(1) ex(1) by simp
  have f2: "getAccessToken edge_world 5000000 (token_page ''h.fresh.s'')
        = (Inr (Some ''h.fresh.s''), token_page ''h.fresh.s'')"
    using Tf dec(1) ex(1) page by simp
  have e2: "getAccessToken edge_world 5000000 (token_page ''h.edge.s'')
        = (Inr (Some ''h.edge.s''), token_page ''h.edge.s'')"
    using Te dec(2) ex(2) page by simp
  have n2: "getAccessToken edge_world 5000000 (token_page ''h.noexp.s'')
        = (Inr (Some ''h.noexp.s''), token_page ''h.noexp.s'')"
    using Tn dec(3) ex(3) page by simp
  have o1: "isTokenExpired edge_world 5000000 ''h.old.s''"
    using To dec(4) ex(4) by simp
  have o2: "getAccessToken edge_world 5000000 (token_page ''h.old.s'') = (Inr None, token_page ''h.old.s'')"
    using To dec(4) ex(4) page by simp
  have o3: "getUser edge_world 5000000 (token_page ''h.old.s'') = None
            \<and> \<not> isAuthenticated edge_world 5000000 (token_page ''h.old.s'')"
    using To o1 page by simp
  have q1: "isTokenExpired edge_world 5000000 ''opaque''"
    using Tq dec(5) by simp
  have q2: "getAccessToken edge_world 5000000 (token_page ''opaque'') = (Inr None, token_page ''opaque'')"
    using Tq dec(5) page by simp
  have gf: "fst (getAccessToken stale_world 5000000 expired_page) = Inr (Some ''h.old.s'')"
    by (simp add: expired_page_def storeTokens_def fresh_page_def load_module_def Let_def
        isTokenExpired_def getAccessToken_def refreshAccessToken_def
        getOIDCConfig_def stale_world_def demo_world_def demo_reply_def
        decodePayload_def demo_atob_json_def alice_def truthy_def)
  then have g: "getAccessToken stale_world 5000000 expired_page
             = (Inr (Some ''h.old.s''), snd (getAccessToken stale_world 5000000 expired_page))"
    by (simp add: prod_eq_iff)
  have r: "refreshAccessToken stale_world expired_page
        = (Inr True, snd (getAccessToken stale_world 5000000 expired_page))"
    using Ts g dec(6) ex(4) a by simp
  have y: "getUser demo_world 5000000 expired_page = current_user expired_page
           \<and> isAuthenticated demo_world 5000000 expired_page"
    using Td a by (simp add: truthy_def)
  have l: "(5000000::int) + 60000 \<le> 5060 * 1000" by simp
  show ?thesis
    using s1 dec f1 f2 e2 n2 o1 o2 o3 q1 q2 gf r y a(2) page(2) l
    by (simp add: getItem_def reject_all_def)
qed


section \<open>What a finished login attempt leaves behind\<close>

text \<open>
  Claim C5 does not hold of the code: only the successful path cleans up. After a
  login that stored \<open>verifier-1\<close> and \<open>state-1\<close>, a callback whose state does not
  match returns \<open>false\<close> and both entries are still in \<open>sessionStorage\<close>; so they
  are after a callback whose code exchange the provider refuses. In the session
  backend the answer to a refused exchange (500) carries no cookie operation, so the
  user agent keeps \<open>auth_state\<close> and \<open>auth_nonce\<close>. The successful browser callback
  removes both entries.
\<close>

theorem failed_callback_keeps_flow_state:
  "handleCallback demo_world (callback_page [(''code'', ''c1''), (''state'', ''evil'')])
      = (Inr False, callback_page [(''code'', ''c1''), (''state'', ''evil'')])
   \<and> sessionStorage (callback_page [(''code'', ''c1''), (''state'', ''evil'')])
      = [(''pkce_verifier'', ''verifier-1''), (''auth_state'', ''state-1'')]
   \<and> fst (handleCallback refusing_world (callback_page [(''code'', ''c1''), (''state'', ''state-1'')]))
      = Inr False
   \<and> sessionStorage (snd (handleCallback refusing_world
        (callback_page [(''code'', ''c1''), (''state'', ''state-1'')])))
      = [(''pkce_verifier'', ''verifier-1''), (''auth_state'', ''state-1'')]
   \<and> fst (auth_callback refusing_world demo_settings 0
        \<lparr>query = [(''code'', ''c1''), (''state'', ''state-1'')],
         jar = [(''auth_state'', ''state-1''), (''auth_nonce'', ''nonce-A'')]\<rparr> fresh_server)
      = Inr \<lparr>status_code = 500, content = Text ''Token exchange failed'', set_cookies = []\<rparr>
   \<and> apply_cookies [] [(''auth_state'', ''state-1''), (''auth_nonce'', ''nonce-A'')]
      = [(''auth_state'', ''state-1''), (''auth_nonce'', ''nonce-A'')]
   \<and> fst (handleCallback demo_world (callback_page [(''code'', ''c1''), (''state'', ''state-1'')]))
      = Inr True
   \<and> sessionStorage (snd (handleCallback demo_world
        (callback_page [(''code'', ''c1''), (''state'', ''state-1'')])))
      = [(''access_token'', ''h.fresh.s''), (''refresh_token'', ''refresh-2'')]"
  by (simp add: handleCallback_def auth_callback_def callback_page_def load_module_def login_def
        getOIDCConfig_def getOIDCConfig_server_def fresh_page_def fresh_server_def
        refusing_world_def demo_world_def demo_reply_def demo_settings_def createPKCE_def
        storeTokens_def decodePayload_def demo_atob_json_def
        getItem_def setItem_def removeItem_def truthy_def Let_def)


section \<open>The code exchange\<close>

text \<open>
  Claim C2 as stated fails in the session backend: its token request carries the
  client secret and no PKCE verifier, and its login issues a state and a nonce but no
  verifier or challenge.
\<close>

theorem session_backend_exchanges_without_verifier:
  "token_posts (outgoing (snd (auth_callback demo_world demo_settings 0
        (callback_request ''state-1'' ''nonce-A'') fresh_server))) =
        [(''https://idp/token'',
          [(''grant_type'', ''authorization_code''), (''code'', ''c1''),
           (''redirect_uri'', ''https://todo.snir.sh/api/auth/callback''), (''client_id'', ''todo''),
           (''client_secret'', ''s3cret'')])]
   \<and> map_of [(''grant_type'', ''authorization_code''), (''code'', ''c1''),
           (''redirect_uri'', ''https://todo.snir.sh/api/auth/callback''), (''client_id'', ''todo''),
           (''client_secret'', ''s3cret'')] ''code_verifier'' = None
   \<and> fst (auth_login demo_world demo_settings ''state-1'' ''nonce-A'' fresh_server) =
        Inr \<lparr>status_code = 302,
             content = Redirect ''https://idp/authorize''
               [(''client_id'', ''todo''), (''redirect_uri'', ''https://todo.snir.sh/api/auth/callback''),
                (''response_type'', ''code''), (''scope'', ''openid email profile''),
                (''state'', ''state-1''), (''nonce'', ''nonce-A'')],
             set_cookies = [SetCookie ''auth_state'' ''state-1'' 300,
                            SetCookie ''auth_nonce'' ''nonce-A'' 300]\<rparr>"
  by (simp add: auth_callback_def auth_login_def callback_request_def login_jar_def
        getOIDCConfig_server_def getJWKS_def fresh_server_def demo_world_def demo_reply_def
        demo_config_def demo_settings_def alice_def user_of_def or_else_def
        getItem_def setItem_def truthy_def Let_def)

text \<open>
  Claim C2, as the code has it. In the browser, \<open>login\<close> stores the verifier it
  generated under \<open>pkce_verifier\<close>, and a callback that reaches the exchange makes
  one POST to the token endpoint with grant type \<open>authorization_code\<close>, the code,
  the redirect URI, the client id and the stored verifier, and no client secret. In
  the session backend a callback that reaches the exchange makes one POST with grant
  type \<open>authorization_code\<close>, the code, the redirect URI, the client id and the
  client secret, and no verifier.
\<close>

theorem code_exchange_request:
  "(login w v st p = (Inr (), p') \<longrightarrow>
      getItem (sessionStorage p') ''pkce_verifier'' = Some v)
   \<and> (\<not> truthy (map_of (search s) ''error'')
       \<and> map_of (search s) ''code'' = Some c \<and> c \<noteq> []
       \<and> map_of (search s) ''state'' = getItem (sessionStorage s) ''auth_state''
       \<and> getItem (sessionStorage s) ''pkce_verifier'' = Some v \<and> v \<noteq> []
       \<and> getOIDCConfig w s = (Inr cfg, sc) \<longrightarrow>
         token_posts (requests (snd (handleCallback w s))) =
           token_posts (requests s) @
             [(token_endpoint cfg,
               [(''grant_type'', ''authorization_code''), (''code'', c),
                (''redirect_uri'', REDIRECT_URI w), (''client_id'', CLIENT_ID),
                (''code_verifier'', v)])])
   \<and> (\<not> truthy (map_of (query rq) ''error'')
       \<and> truthy (map_of (query rq) ''state'')
       \<and> map_of (query rq) ''state'' = getItem (jar rq) ''auth_state''
       \<and> getOIDCConfig_server w env srv = (Inr cfg', srv') \<longrightarrow>
         token_posts (outgoing (snd (auth_callback w env now rq srv))) =
           token_posts (outgoing srv) @
             [(token_endpoint cfg',
               [(''grant_type'', ''authorization_code''),
                (''code'', (case map_of (query rq) ''code'' of None \<Rightarrow> ''undefined'' | Some x \<Rightarrow> x)),
                (''redirect_uri'', env_REDIRECT_URI env), (''client_id'', env_CLIENT_ID env),
                (''client_secret'', env_CLIENT_SECRET env)])])"
  using login_stores[of w v st p p'] handleCallback_posts[of s c v w cfg sc]
    auth_callback_posts[of rq w env srv cfg' srv' now]
  by blast

theorem code_exchange_request_witness:
  "fst (login demo_world ''verifier-1'' ''state-1'' fresh_page) = Inr ()
   \<and> getItem (sessionStorage (snd (login demo_world ''verifier-1'' ''state-1'' fresh_page)))
        ''pkce_verifier'' = Some ''verifier-1''
   \<and> sessionStorage (callback_page [(''code'', ''c1''), (''state'', ''state-1'')])
        = sessionStorage (snd (login demo_world ''verifier-1'' ''state-1'' fresh_page))
   \<and> token_posts (requests (snd (handleCallback demo_world
        (callback_page [(''code'', ''c1''), (''state'', ''state-1'')])))) =
        [(''https://idp/token'',
          [(''grant_type'', ''authorization_code''), (''code'', ''c1''),
           (''redirect_uri'', ''https://todo.snir.sh/callback''), (''client_id'', CLIENT_ID),
           (''code_verifier'', ''verifier-1'')])]
   \<and> token_posts (outgoing (snd (auth_callback demo_world demo_settings 0
        (callback_request ''state-1'' ''nonce-A'') fresh_server))) =
        [(''https://idp/token'',
          [(''grant_type'', ''authorization_code''), (''code'', ''c1''),
           (''redirect_uri'', ''https://todo.snir.sh/api/auth/callback''), (''client_id'', ''todo''),
           (''client_secret'', ''s3cret'')])]"
proof -
  let ?q = "[(''code'', ''c1''), (''state'', ''state-1'')]"
  let ?s1 = "snd (login demo_world ''verifier-1'' ''state-1'' fresh_page)"
  let ?sc = "(callback_page ?q)\<lparr>config := Some demo_config,
               requests := [Discovery (OIDC_ISSUER @ ''.well-known/openid-configuration'')]\<rparr>"
  let ?srv = "fresh_server\<lparr>oidcConfig := Some demo_config,
               outgoing := [Discovery ''https://idp/.well-known/openid-configuration'']\<rparr>"
  note T = code_exchange_request
    [where w = demo_world and v = "''verifier-1''" and st = "''state-1''" and p = fresh_page
        and p' = ?s1 and s = "callback_page ?q" and c = "''c1''" and cfg = demo_config and sc = ?sc
        and rq = "callback_request ''state-1'' ''nonce-A''" and env = demo_settings
        and cfg' = demo_config and srv' = ?srv and now = 0 and srv = fresh_server]
  have l: "fst (login demo_world ''verifier-1'' ''state-1'' fresh_page) = Inr ()"
    by (simp add: login_def getOIDCConfig_def fresh_page_def load_module_def demo_world_def
        createPKCE_def Let_def)
  then have l2: "login demo_world ''verifier-1'' ''state-1'' fresh_page = (Inr (), ?s1)"
    by (simp add: prod_eq_iff)
  have st: "sessionStorage (callback_page ?q)
              = [(''pkce_verifier'', ''verifier-1''), (''auth_state'', ''state-1'')]"
    "sessionStorage ?s1 = [(''pkce_verifier'', ''verifier-1''), (''auth_state'', ''state-1'')]"
    "search (callback_page ?q) = ?q" "requests (callback_page ?q) = []"
    by (simp_all add: callback_page_def login_def getOIDCConfig_def fresh_page_def load_module_def
        demo_world_def createPKCE_def Let_def setItem_def)
  have c: "getOIDCConfig demo_world (callback_page ?q) = (Inr demo_config, ?sc)"
    by (simp add: getOIDCConfig_def callback_page_def load_module_def demo_world_def Let_def)
  have rq: "query (callback_request ''state-1'' ''nonce-A'') = ?q"
    "jar (callback_request ''state-1'' ''nonce-A'')
       = [(''auth_state'', ''state-1''), (''auth_nonce'', ''nonce-A'')]"
    by (simp_all add: callback_request_def login_jar_def auth_login_def getOIDCConfig_server_def
        fresh_server_def demo_world_def Let_def setItem_def)
  have cs: "getOIDCConfig_server demo_world demo_settings fresh_server = (Inr demo_config, ?srv)"
    by (simp add: getOIDCConfig_server_def fresh_server_def demo_world_def demo_settings_def Let_def)
  have v: "getItem (sessionStorage ?s1) ''pkce_verifier'' = Some ''verifier-1''"
    using T[THEN conjunct1] l2 by simp
  have b: "token_posts (requests (snd (handleCallback demo_world (callback_page ?q)))) =
        [(''https://idp/token'',
          [(''grant_type'', ''authorization_code''), (''code'', ''c1''),
           (''redirect_uri'', ''https://todo.snir.sh/callback''), (''client_id'', CLIENT_ID),
           (''code_verifier'', ''verifier-1'')])]"
    using T[THEN conjunct2, THEN conjunct1] st c
    by (simp add: truthy_def getItem_def demo_config_def REDIRECT_URI_def demo_world_def)
  have p: "token_posts (outgoing (snd (auth_callback demo_world demo_settings 0
        (callback_request ''state-1'' ''nonce-A'') fresh_server))) =
        [(''https://idp/token'',
          [(''grant_type'', ''authorization_code''), (''code'', ''c1''),
           (''redirect_uri'', ''https://todo.snir.sh/api/auth/callback''), (''client_id'', ''todo''),
           (''client_secret'', ''s3cret'')])]"
    using T[THEN conjunct2, THEN conjunct2] rq cs
    by (simp add: truthy_def getItem_def demo_config_def demo_settings_def fresh_server_def)
  show ?thesis
    using l v st b p by simp
qed


section \<open>The nonce check of the session backend\<close>

text \<open>
  Claim C4 as stated fails. The login issued the nonce \<open>nonce-B\<close>, and the ID token
  verifies with the nonce \<open>nonce-A\<close>. When the callback request comes without the
  \<open>auth_nonce\<close> cookie, or with an empty one, the comparison is skipped and the
  callback sets the session cookie and redirects to the application.
\<close>

theorem missing_nonce_cookie_skips_check:
  "login_jar ''state-1'' ''nonce-B'' = [(''auth_state'', ''state-1''), (''auth_nonce'', ''nonce-B'')]
   \<and> jar bare_request = [(''auth_state'', ''state-1'')]
   \<and> jar blank_request = [(''auth_state'', ''state-1''), (''auth_nonce'', [])]
   \<and> verify_id_token demo_world ''keys'' (id_token demo_reply)
        = Some (alice (Some 9000) (Some ''nonce-A''))
   \<and> nonce (alice (Some 9000) (Some ''nonce-A'')) \<noteq> Some ''nonce-B''
   \<and> fst (auth_callback demo_world demo_settings 0 bare_request fresh_server)
        = Inr \<lparr>status_code = 302, content = Redirect ''https://todo.snir.sh'' [],
               set_cookies = [SetCookie ''session'' ''signed-session'' 2592000,
                              DeleteCookie ''auth_state'', DeleteCookie ''auth_nonce'']\<rparr>
   \<and> fst (auth_callback demo_world demo_settings 0 blank_request fresh_server)
        = Inr \<lparr>status_code = 302, content = Redirect ''https://todo.snir.sh'' [],
               set_cookies = [SetCookie ''session'' ''signed-session'' 2592000,
                              DeleteCookie ''auth_state'', DeleteCookie ''auth_nonce'']\<rparr>"
  by (simp add: auth_callback_def bare_request_def blank_request_def login_jar_def auth_login_def
        getOIDCConfig_server_def getJWKS_def fresh_server_def demo_world_def demo_reply_def
        demo_config_def demo_settings_def alice_def getItem_def setItem_def removeItem_def
        truthy_def Let_def)

text \<open>
  Claim C4, as the code has it. Let the callback request carry a non-empty
  \<open>auth_nonce\<close> cookie \<open>n\<close>. When the callback gets as far as a verified ID token
  and the token's nonce claim is not \<open>n\<close>, the answer is 400 \<open>Invalid nonce\<close> with
  no cookie set. And when no ID token that verifies carries the nonce \<open>n\<close>,
  whatever the callback answers sets no cookie, so no session token is delivered, and
  is not the redirect to the application that ends a successful login. When the
  request carries no \<open>auth_nonce\<close> cookie, or an empty one, and the callback gets as
  far as a verified ID token, the nonce claim is not looked at: the session cookie is
  set and the answer is the redirect to the application.
\<close>

theorem nonce_mismatch_is_fatal:
  "(getItem (jar rq) ''auth_nonce'' = Some n \<and> n \<noteq> []
     \<and> \<not> truthy (map_of (query rq) ''error'')
     \<and> truthy (map_of (query rq) ''state'')
     \<and> map_of (query rq) ''state'' = getItem (jar rq) ''auth_state''
     \<and> getOIDCConfig_server w env srv = (Inr cfg, sc)
     \<and> fm = [(''grant_type'', ''authorization_code''),
              (''code'', (case map_of (query rq) ''code'' of None \<Rightarrow> ''undefined'' | Some x \<Rightarrow> x)),
              (''redirect_uri'', env_REDIRECT_URI env), (''client_id'', env_CLIENT_ID env),
              (''client_secret'', env_CLIENT_SECRET env)]
     \<and> fetch_token w (outgoing sc) (token_endpoint cfg) fm = Some res \<and> ok res
     \<and> getJWKS w env (sc\<lparr>outgoing := outgoing sc @ [TokenPost (token_endpoint cfg) fm]\<rparr>) = (Inr ks, sk)
     \<and> verify_id_token w ks (id_token res) = Some idt
     \<and> nonce idt \<noteq> Some n
    \<longrightarrow> auth_callback w env now rq srv =
          (Inr \<lparr>status_code = 400, content = Text ''Invalid nonce'', set_cookies = []\<rparr>, sk))
   \<and> (getItem (jar rq) ''auth_nonce'' = Some n \<and> n \<noteq> []
     \<and> (\<forall>ks t idt. verify_id_token w ks t = Some idt \<longrightarrow> nonce idt \<noteq> Some n)
     \<and> auth_callback w env now rq srv = (Inr resp, srv')
    \<longrightarrow> set_cookies resp = [] \<and> content resp \<noteq> Redirect (env_APP_URL env) [])
   \<and> (\<not> truthy (getItem (jar rq) ''auth_nonce'')
     \<and> \<not> truthy (map_of (query rq) ''error'')
     \<and> truthy (map_of (query rq) ''state'')
     \<and> map_of (query rq) ''state'' = getItem (jar rq) ''auth_state''
     \<and> getOIDCConfig_server w env srv = (Inr cfg, sc)
     \<and> fm = [(''grant_type'', ''authorization_code''),
              (''code'', (case map_of (query rq) ''code'' of None \<Rightarrow> ''undefined'' | Some x \<Rightarrow> x)),
              (''redirect_uri'', env_REDIRECT_URI env), (''client_id'', env_CLIENT_ID env),
              (''client_secret'', env_CLIENT_SECRET env)]
     \<and> fetch_token w (outgoing sc) (token_endpoint cfg) fm = Some res \<and> ok res
     \<and> getJWKS w env (sc\<lparr>outgoing := outgoing sc @ [TokenPost (token_endpoint cfg) fm]\<rparr>) = (Inr ks, sk)
     \<and> verify_id_token w ks (id_token res) = Some idt
    \<longrightarrow> auth_callback w env now rq srv =
          (Inr \<lparr>status_code = 302, content = Redirect (env_APP_URL env) [],
                set_cookies = [SetCookie ''session'' (sign_session w (user_of idt) now) (30 * 24 * 60 * 60),
                               DeleteCookie ''auth_state'', DeleteCookie ''auth_nonce'']\<rparr>, sk))"
proof (intro conjI impI)
  assume a: "getItem (jar rq) ''auth_nonce'' = Some n \<and> n \<noteq> []
     \<and> \<not> truthy (map_of (query rq) ''error'')
     \<and> truthy (map_of (query rq) ''state'')
     \<and> map_of (query rq) ''state'' = getItem (jar rq) ''auth_state''
     \<and> getOIDCConfig_server w env srv = (Inr cfg, sc)
     \<and> fm = [(''grant_type'', ''authorization_code''),
              (''code'', (case map_of (query rq) ''code'' of None \<Rightarrow> ''undefined'' | Some x \<Rightarrow> x)),
              (''redirect_uri'', env_REDIRECT_URI env), (''client_id'', env_CLIENT_ID env),
              (''client_secret'', env_CLIENT_SECRET env)]
     \<and> fetch_token w (outgoing sc) (token_endpoint cfg) fm = Some res \<and> ok res
     \<and> getJWKS w env (sc\<lparr>outgoing := outgoing sc @ [TokenPost (token_endpoint cfg) fm]\<rparr>) = (Inr ks, sk)
     \<and> verify_id_token w ks (id_token res) = Some idt
     \<and> nonce idt \<noteq> Some n"
  then have "auth_callback w env now rq srv =
           (Inr (if nonce idt \<noteq> Some n
                 then \<lparr>status_code = 400, content = Text ''Invalid nonce'', set_cookies = []\<rparr>
                 else \<lparr>status_code = 302, content = Redirect (env_APP_URL env) [],
                       set_cookies = [SetCookie ''session'' (sign_session w (user_of idt) now) (30 * 24 * 60 * 60),
                                      DeleteCookie ''auth_state'', DeleteCookie ''auth_nonce'']\<rparr>), sk)"
    by (intro nonce_check_reached) blast+
  with a show "auth_callback w env now rq srv =
          (Inr \<lparr>status_code = 400, content = Text ''Invalid nonce'', set_cookies = []\<rparr>, sk)"
    by simp
next
  assume b: "getItem (jar rq) ''auth_nonce'' = Some n \<and> n \<noteq> []
     \<and> (\<forall>ks t idt. verify_id_token w ks t = Some idt \<longrightarrow> nonce idt \<noteq> Some n)
     \<and> auth_callback w env now rq srv = (Inr resp, srv')"
  then show "set_cookies resp = []" "content resp \<noteq> Redirect (env_APP_URL env) []"
    using no_session_without_matching_nonce[of rq n w env now srv resp srv'] by blast+
next
  assume c: "\<not> truthy (getItem (jar rq) ''auth_nonce'')
     \<and> \<not> truthy (map_of (query rq) ''error'')
     \<and> truthy (map_of (query rq) ''state'')
     \<and> map_of (query rq) ''state'' = getItem (jar rq) ''auth_state''
     \<and> getOIDCConfig_server w env srv = (Inr cfg, sc)
     \<and> fm = [(''grant_type'', ''authorization_code''),
              (''code'', (case map_of (query rq) ''code'' of None \<Rightarrow> ''undefined'' | Some x \<Rightarrow> x)),
              (''redirect_uri'', env_REDIRECT_URI env), (''client_id'', env_CLIENT_ID env),
              (''client_secret'', env_CLIENT_SECRET env)]
     \<and> fetch_token w (outgoing sc) (token_endpoint cfg) fm = Some res \<and> ok res
     \<and> getJWKS w env (sc\<lparr>outgoing := outgoing sc @ [TokenPost (token_endpoint cfg) fm]\<rparr>) = (Inr ks, sk)
     \<and> verify_id_token w ks (id_token res) = Some idt"
  then show "auth_callback w env now rq srv =
          (Inr \<lparr>status_code = 302, content = Redirect (env_APP_URL env) [],
                set_cookies = [SetCookie ''session'' (sign_session w (user_of idt) now) (30 * 24 * 60 * 60),
                               DeleteCookie ''auth_state'', DeleteCookie ''auth_nonce'']\<rparr>, sk)"
    by (intro nonce_check_skipped) blast+
qed

theorem nonce_mismatch_is_fatal_witness:
  "getItem (jar (callback_request ''state-1'' ''nonce-B'')) ''auth_nonce'' = Some ''nonce-B''
   \<and> ''nonce-B'' \<noteq> []
   \<and> verify_id_token demo_world ''keys'' (id_token demo_reply)
        = Some (alice (Some 9000) (Some ''nonce-A''))
   \<and> nonce (alice (Some 9000) (Some ''nonce-A'')) \<noteq> Some ''nonce-B''
   \<and> fst (auth_callback demo_world demo_settings 0 (callback_request ''state-1'' ''nonce-B'') fresh_server)
        = Inr \<lparr>status_code = 400, content = Text ''Invalid nonce'', set_cookies = []\<rparr>
   \<and> token_posts (outgoing (snd (auth_callback demo_world demo_settings 0
        (callback_request ''state-1'' ''nonce-B'') fresh_server))) \<noteq> []
   \<and> fst (auth_callback demo_world demo_settings 0 (callback_request ''state-1'' ''nonce-A'') fresh_server)
        = Inr \<lparr>status_code = 302, content = Redirect ''https://todo.snir.sh'' [],
               set_cookies = [SetCookie ''session'' ''signed-session'' 2592000,
                              DeleteCookie ''auth_state'', DeleteCookie ''auth_nonce'']\<rparr>
   \<and> \<not> truthy (getItem (jar bare_request) ''auth_nonce'')
   \<and> fst (auth_callback demo_world demo_settings 0 bare_request fresh_server)
        = Inr \<lparr>status_code = 302, content = Redirect ''https://todo.snir.sh'' [],
               set_cookies = [SetCookie ''session'' ''signed-session'' 2592000,
                              DeleteCookie ''auth_state'', DeleteCookie ''auth_nonce'']\<rparr>"
proof -
  let ?rq = "callback_request ''state-1'' ''nonce-B''"
  let ?fm = "[(''grant_type'', ''authorization_code''), (''code'', ''c1''),
              (''redirect_uri'', env_REDIRECT_URI demo_settings),
              (''client_id'', env_CLIENT_ID demo_settings),
              (''client_secret'', env_CLIENT_SECRET demo_settings)]"
  let ?sc = "fresh_server\<lparr>oidcConfig := Some demo_config,
               outgoing := [Discovery ''https://idp/.well-known/openid-configuration'']\<rparr>"
  let ?sk = "fresh_server\<lparr>oidcConfig := Some demo_config, jwks := Some ''keys'',
               outgoing := [Discovery ''https://idp/.well-known/openid-configuration'',
                            TokenPost ''https://idp/token'' ?fm, JwksGet ''https://idp/jwks'']\<rparr>"
  let ?idt = "alice (Some 9000) (Some ''nonce-A'')"
  note T = nonce_mismatch_is_fatal
    [where rq = ?rq and n = "''nonce-B''" and w = demo_world and env = demo_settings
       and srv = fresh_server and cfg = demo_config and sc = ?sc and fm = ?fm and res = demo_reply
       and ks = "''keys''" and sk = ?sk and idt = ?idt and now = 0]
  have rq: "query ?rq = [(''code'', ''c1''), (''state'', ''state-1'')]"
    "jar ?rq = [(''auth_state'', ''state-1''), (''auth_nonce'', ''nonce-B'')]"
    by (simp_all add: callback_request_def login_jar_def auth_login_def getOIDCConfig_server_def
        fresh_server_def demo_world_def Let_def setItem_def)
  have h1: "getItem (jar ?rq) ''auth_nonce'' = Some ''nonce-B''"
    "\<not> truthy (map_of (query ?rq) ''error'')" "truthy (map_of (query ?rq) ''state'')"
    "map_of (query ?rq) ''state'' = getItem (jar ?rq) ''auth_state''"
    "?fm = [(''grant_type'', ''authorization_code''),
            (''code'', (case map_of (query ?rq) ''code'' of None \<Rightarrow> ''undefined'' | Some x \<Rightarrow> x)),
            (''redirect_uri'', env_REDIRECT_URI demo_settings),
            (''client_id'', env_CLIENT_ID demo_settings),
            (''client_secret'', env_CLIENT_SECRET demo_settings)]"
    by (simp_all add: rq getItem_def truthy_def)
  have h2: "getOIDCConfig_server demo_world demo_settings fresh_server = (Inr demo_config, ?sc)"
    by (simp add: getOIDCConfig_server_def fresh_server_def demo_world_def demo_settings_def Let_def)
  have h3: "fetch_token demo_world (outgoing ?sc) (token_endpoint demo_config) ?fm = Some demo_reply"
    "ok demo_reply"
    by (simp_all add: demo_world_def demo_reply_def)
  have h4: "getJWKS demo_world demo_settings
              (?sc\<lparr>outgoing := outgoing ?sc @ [TokenPost (token_endpoint demo_config) ?fm]\<rparr>)
            = (Inr ''keys'', ?sk)"
    by (simp add: getJWKS_def getOIDCConfig_server_def fresh_server_def demo_world_def
        demo_config_def Let_def)
  have h5: "verify_id_token demo_world ''keys'' (id_token demo_reply) = Some ?idt"
    by (simp add: demo_world_def demo_reply_def)
  have h6: "nonce ?idt \<noteq> Some ''nonce-B''"
    by (simp add: alice_def)
  have r: "auth_callback demo_world demo_settings 0 ?rq fresh_server
             = (Inr \<lparr>status_code = 400, content = Text ''Invalid nonce'', set_cookies = []\<rparr>, ?sk)"
    using T[THEN conjunct1] h1 h2 h3 h4 h5 h6 by blast
  have ok: "fst (auth_callback demo_world demo_settings 0 (callback_request ''state-1'' ''nonce-A'') fresh_server)
        = Inr \<lparr>status_code = 302, content = Redirect ''https://todo.snir.sh'' [],
               set_cookies = [SetCookie ''session'' ''signed-session'' 2592000,
                              DeleteCookie ''auth_state'', DeleteCookie ''auth_nonce'']\<rparr>"
    by (simp add: auth_callback_def callback_request_def login_jar_def auth_login_def
        getOIDCConfig_server_def getJWKS_def fresh_server_def demo_world_def demo_reply_def
        demo_config_def demo_settings_def alice_def getItem_def setItem_def truthy_def Let_def)
  note B = nonce_mismatch_is_fatal
    [where rq = bare_request and n = "''nonce-B''" and w = demo_world and env = demo_settings
       and srv = fresh_server and cfg = demo_config and sc = ?sc and fm = ?fm and res = demo_reply
       and ks = "''keys''" and sk = ?sk and idt = ?idt and now = 0]
  have bq: "query bare_request = [(''code'', ''c1''), (''state'', ''state-1'')]"
    "jar bare_request = [(''auth_state'', ''state-1'')]"
    by (simp_all add: bare_request_def login_jar_def auth_login_def getOIDCConfig_server_def
        fresh_server_def demo_world_def Let_def setItem_def removeItem_def)
  have b1: "\<not> truthy (getItem (jar bare_request) ''auth_nonce'')"
    "\<not> truthy (map_of (query bare_request) ''error'')" "truthy (map_of (query bare_request) ''state'')"
    "map_of (query bare_request) ''state'' = getItem (jar bare_request) ''auth_state''"
    "?fm = [(''grant_type'', ''authorization_code''),
            (''code'', (case map_of (query bare_request) ''code'' of None \<Rightarrow> ''undefined'' | Some x \<Rightarrow> x)),
            (''redirect_uri'', env_REDIRECT_URI demo_settings),
            (''client_id'', env_CLIENT_ID demo_settings),
            (''client_secret'', env_CLIENT_SECRET demo_settings)]"
    by (simp_all add: bq getItem_def truthy_def)
  have rb: "auth_callback demo_world demo_settings 0 bare_request fresh_server
             = (Inr \<lparr>status_code = 302, content = Redirect (env_APP_URL demo_settings) [],
                     set_cookies = [SetCookie ''session'' (sign_session demo_world (user_of ?idt) 0)
                                      (30 * 24 * 60 * 60),
                                    DeleteCookie ''auth_state'', DeleteCookie ''auth_nonce'']\<rparr>, ?sk)"
    using B[THEN conjunct2, THEN conjunct2] b1 h2 h3 h4 h5 by blast
  have sg: "sign_session demo_world (user_of ?idt) 0 = ''signed-session''"
    "env_APP_URL demo_settings = ''https://todo.snir.sh''"
    by (simp_all add: demo_world_def demo_settings_def)
  show ?thesis
    using h1(1) h5 h6 ok b1(1) by (simp add: r rb sg)
qed

end
